theory Spec2Isabelle
  imports Complex_Main
begin

section \<open>Geometric primitives of \<^verbatim>\<open>src/util/primitives.js\<close>\<close>

text \<open>
  The file defines three classes, \<^verbatim>\<open>Ray\<close>, \<^verbatim>\<open>Frustum\<close> and \<^verbatim>\<open>Aabb\<close>.
  JavaScript numbers are modelled as real numbers: the arithmetic on doubles is exact
  arithmetic, without rounding, infinities or NaN.  A store into a \<^verbatim>\<open>Float32Array\<close>
  rounds the number to single precision, and that rounding is part of the model.  A
  \<^verbatim>\<open>vec3\<close> is a triple, a
  \<^verbatim>\<open>vec4\<close> a quadruple (the Flow types of the source fix the sizes), and a 4x4 matrix
  (a \<^verbatim>\<open>Float64Array\<close> in column-major order) is the function from its 16 positions to
  its entries.
\<close>

type_synonym vec3 = "real \<times> real \<times> real"
type_synonym vec4 = "real \<times> real \<times> real \<times> real"
type_synonym mat4 = "nat \<Rightarrow> real"

subsection \<open>The operations of the gl-matrix library the file calls\<close>

text \<open>
  gl-matrix is an external library.  Each operation below follows the library's own
  definition; the functions of the library write into their first argument and return
  it, the model returns the vector written.
\<close>

fun vec3_dot :: "vec3 \<Rightarrow> vec3 \<Rightarrow> real" where
  "vec3_dot (a0, a1, a2) (b0, b1, b2) = a0 * b0 + a1 * b1 + a2 * b2"

fun vec3_add :: "vec3 \<Rightarrow> vec3 \<Rightarrow> vec3" where
  "vec3_add (a0, a1, a2) (b0, b1, b2) = (a0 + b0, a1 + b1, a2 + b2)"

fun vec3_sub :: "vec3 \<Rightarrow> vec3 \<Rightarrow> vec3" where
  "vec3_sub (a0, a1, a2) (b0, b1, b2) = (a0 - b0, a1 - b1, a2 - b2)"

fun vec3_scale :: "vec3 \<Rightarrow> real \<Rightarrow> vec3" where
  "vec3_scale (a0, a1, a2) b = (a0 * b, a1 * b, a2 * b)"

fun vec3_scaleAndAdd :: "vec3 \<Rightarrow> vec3 \<Rightarrow> real \<Rightarrow> vec3" where
  "vec3_scaleAndAdd (a0, a1, a2) (b0, b1, b2) s = (a0 + b0 * s, a1 + b1 * s, a2 + b2 * s)"

fun vec3_squaredLength :: "vec3 \<Rightarrow> real" where
  "vec3_squaredLength (x, y, z) = x * x + y * y + z * z"

fun vec3_length :: "vec3 \<Rightarrow> real" where
  "vec3_length (x, y, z) = sqrt (x * x + y * y + z * z)"

fun vec3_cross :: "vec3 \<Rightarrow> vec3 \<Rightarrow> vec3" where
  "vec3_cross (ax, ay, az) (bx, by, bz) =
     (ay * bz - az * by, az * bx - ax * bz, ax * by - ay * bx)"

text \<open>
  \<^verbatim>\<open>vec3.normalize\<close> scales by \<^verbatim>\<open>1 / Math.sqrt(len)\<close> when the squared length
  \<^verbatim>\<open>len\<close> is positive and by \<^verbatim>\<open>len\<close> itself (zero) otherwise.
\<close>

fun vec3_normalize :: "vec3 \<Rightarrow> vec3" where
  "vec3_normalize (x, y, z) =
     (let len = x * x + y * y + z * z;
          len = (if len > 0 then 1 / sqrt len else len)
      in (x * len, y * len, z * len))"

text \<open>
  \<^verbatim>\<open>vec3.equals\<close> is the library's approximate comparison (the exact one is
  \<^verbatim>\<open>vec3.exactEquals\<close>): with \<^verbatim>\<open>glMatrix.EPSILON = 0.000001\<close> it returns
  \<^verbatim>\<open>Math.abs(a0 - b0) <= EPSILON * Math.max(1.0, Math.abs(a0), Math.abs(b0))\<close>
  and the same for the two other components.
\<close>

definition EPSILON :: real where
  "EPSILON = 1 / 1000000"

fun vec3_equals :: "vec3 \<Rightarrow> vec3 \<Rightarrow> bool" where
  "vec3_equals (a0, a1, a2) (b0, b1, b2) =
     (\<bar>a0 - b0\<bar> \<le> EPSILON * max 1 (max \<bar>a0\<bar> \<bar>b0\<bar>) \<and>
      \<bar>a1 - b1\<bar> \<le> EPSILON * max 1 (max \<bar>a1\<bar> \<bar>b1\<bar>) \<and>
      \<bar>a2 - b2\<bar> \<le> EPSILON * max 1 (max \<bar>a2\<bar> \<bar>b2\<bar>))"

text \<open>\<^verbatim>\<open>vec4.transformMat4\<close>: the product of the column-major matrix with the vector.\<close>

fun vec4_transformMat4 :: "vec4 \<Rightarrow> mat4 \<Rightarrow> vec4" where
  "vec4_transformMat4 (x, y, z, w) m =
     (m 0 * x + m 4 * y + m 8 * z + m 12 * w,
      m 1 * x + m 5 * y + m 9 * z + m 13 * w,
      m 2 * x + m 6 * y + m 10 * z + m 14 * w,
      m 3 * x + m 7 * y + m 11 * z + m 15 * w)"

fun vec4_mul :: "vec4 \<Rightarrow> vec4 \<Rightarrow> vec4" where
  "vec4_mul (a0, a1, a2, a3) (b0, b1, b2, b3) = (a0 * b0, a1 * b1, a2 * b2, a3 * b3)"

text \<open>
  The source passes 4-element arrays to the \<^verbatim>\<open>vec3\<close> functions, which read the
  first three elements, and reads single elements by index.  The indices are literals
  or loop counters below the size of the vector.
\<close>

fun vec4_xyz :: "vec4 \<Rightarrow> vec3" where
  "vec4_xyz (a0, a1, a2, a3) = (a0, a1, a2)"

fun vec4_w :: "vec4 \<Rightarrow> real" where
  "vec4_w (a0, a1, a2, a3) = a3"

fun vec3_get :: "vec3 \<Rightarrow> nat \<Rightarrow> real" where
  "vec3_get (a0, a1, a2) i = (if i = 0 then a0 else if i = 1 then a1 else a2)"

fun vec3_set :: "vec3 \<Rightarrow> nat \<Rightarrow> real \<Rightarrow> vec3" where
  "vec3_set (a0, a1, a2) i v =
     (if i = 0 then (v, a1, a2) else if i = 1 then (a0, v, a2) else (a0, a1, v))"

subsection \<open>Stores into a Float32Array\<close>

text \<open>
  \<^verbatim>\<open>vec3.create()\<close> and \<^verbatim>\<open>vec3.clone(a)\<close> allocate gl-matrix's default array type, a
  \<^verbatim>\<open>Float32Array\<close>; a vector the source allocates as \<^verbatim>\<open>[]\<close> holds doubles.  A store
  into a \<^verbatim>\<open>Float32Array\<close> converts the number as \<^verbatim>\<open>Math.fround\<close> does: to the nearest
  single-precision number, a tie going to the even significand.  A single-precision
  number is an integer of at most 24 bits times a power of two: for
  \<open>2\<^sup>k \<le> \<bar>x\<bar> < 2\<^sup>k\<^sup>+\<^sup>1\<close> the numbers are \<open>2\<^sup>k\<^sup>-\<^sup>2\<^sup>3\<close> apart, and below \<open>2\<^sup>-\<^sup>1\<^sup>2\<^sup>6\<close> they are
  \<open>2\<^sup>-\<^sup>1\<^sup>4\<^sup>9\<close> apart.  Beyond the largest single-precision number the source stores an
  infinity, which the model does not have.
\<close>

definition roundHalfEven :: "real \<Rightarrow> int" where
  "roundHalfEven y =
     (let f = \<lfloor>y\<rfloor> in
      if y - of_int f < 1 / 2 then f
      else if y - of_int f > 1 / 2 then f + 1
      else if even f then f else f + 1)"

definition fround :: "real \<Rightarrow> real" where
  "fround x =
     (if x = 0 then 0
      else
        let e = max (\<lfloor>log 2 \<bar>x\<bar>\<rfloor> - 23) (- 149);
            ulp = 2 powr (of_int e)
        in of_int (roundHalfEven (x / ulp)) * ulp)"

text \<open>
  A vector written into a fresh \<^verbatim>\<open>Float32Array\<close>, as \<^verbatim>\<open>vec3.sub(vec3.create(), a, b)\<close>
  writes the difference and \<^verbatim>\<open>vec3.clone(a)\<close> writes the copy.
\<close>

fun vec3_float32 :: "vec3 \<Rightarrow> vec3" where
  "vec3_float32 (a0, a1, a2) = (fround a0, fround a1, fround a2)"

definition vec3_clone :: "vec3 \<Rightarrow> vec3" where
  "vec3_clone a = vec3_float32 a"

subsection \<open>Ray\<close>

record ray =
  pos :: vec3
  dir :: vec3

definition Ray :: "vec3 \<Rightarrow> vec3 \<Rightarrow> ray" where
  "Ray pos0 dir0 = \<lparr>pos = pos0, dir = dir0\<rparr>"

text \<open>
  A method that writes into the caller's buffer \<^verbatim>\<open>out\<close> takes the buffer's content
  and returns the JavaScript result together with the content after the call.  In
  \<^verbatim>\<open>intersectsPlane\<close> the difference \<^verbatim>\<open>pt - pos\<close> and the intersection point are
  written into \<^verbatim>\<open>vec3.create()\<close> vectors, in single precision; \<^verbatim>\<open>vec3.copy\<close> then
  copies the numbers of the intersection point into \<^verbatim>\<open>out\<close>.
\<close>

definition intersectsPlane :: "ray \<Rightarrow> vec3 \<Rightarrow> vec3 \<Rightarrow> vec3 \<Rightarrow> bool \<times> vec3" where
  "intersectsPlane this pt normal out =
     (let D = vec3_dot normal (dir this) in
      if \<bar>D\<bar> < 1 / 1000000 then (False, out)
      else
        let t = vec3_dot (vec3_float32 (vec3_sub pt (pos this))) normal / D;
            intersection = vec3_float32 (vec3_scaleAndAdd (pos this) (dir this) t)
        in (True, intersection))"

text \<open>
  A failed \<^verbatim>\<open>assert\<close> throws; it is the error result.  On the guard
  \<^verbatim>\<open>vec3.equals(this.pos, center) || r === 0.0\<close> the source executes
  \<^verbatim>\<open>out = [0.0, 0.0, 0.0]\<close>, which rebinds the parameter to a new array: the
  caller's buffer keeps its content.  In the branch \<^verbatim>\<open>d < 0.0\<close> the vector
  \<^verbatim>\<open>centerToP\<close> is negated in place before it is used.  Every temporary vector of
  this method is allocated as \<^verbatim>\<open>[]\<close> and holds doubles.
\<close>

datatype error = AssertionError

definition closestPointOnSphere :: "ray \<Rightarrow> vec3 \<Rightarrow> real \<Rightarrow> vec3 \<Rightarrow> error + bool \<times> vec3" where
  "closestPointOnSphere this center r out =
     (if \<not> (vec3_squaredLength (dir this) > 0 \<and> r \<ge> 0) then Inl AssertionError
      else if vec3_equals (pos this) center \<or> r = 0 then Inr (False, out)
      else
        let centerToP = vec3_sub (pos this) center;
            a = vec3_dot (dir this) (dir this);
            b = 2 * vec3_dot centerToP (dir this);
            c = vec3_dot centerToP centerToP - r * r;
            d = b * b - 4 * a * c
        in
          if d < 0 then
            let centerToP = vec3_scale centerToP (- 1);
                t = max (vec3_dot centerToP (dir this)) 0;
                pointOnRay = vec3_add (pos this) (vec3_scale (dir this) t);
                pointToGlobe = vec3_sub center pointOnRay;
                pointToGlobeLength = vec3_length pointToGlobe;
                pointToGlobe = vec3_scale pointToGlobe (1 - r / pointToGlobeLength)
            in Inr (False, vec3_sub (vec3_add pointOnRay pointToGlobe) center)
          else if \<not> a > 0 then Inl AssertionError
          else
            let t = (- b - sqrt d) / (2 * a) in
            if t < 0 then
              Inr (False, vec3_scale centerToP (r / vec3_length centerToP))
            else
              let dir' = vec3_scale (dir this) t;
                  pos' = vec3_add (pos this) dir'
              in Inr (True, vec3_sub pos' center))"

subsection \<open>Frustum\<close>

text \<open>
  The arrays \<^verbatim>\<open>points\<close> and \<^verbatim>\<open>planes\<close> are lists of 4-element vectors: a corner
  is the scaled homogeneous point, a plane is its normal followed by its offset.
\<close>

record frustum =
  points :: "vec4 list"
  planes :: "vec4 list"

definition Frustum :: "vec4 list \<Rightarrow> vec4 list \<Rightarrow> frustum" where
  "Frustum points0 planes0 = \<lparr>points = points0, planes = planes0\<rparr>"

definition clipSpaceCorners :: "vec4 list" where
  "clipSpaceCorners =
     [(- 1, 1, - 1, 1),
      (1, 1, - 1, 1),
      (1, - 1, - 1, 1),
      (- 1, - 1, - 1, 1),
      (- 1, 1, 1, 1),
      (1, 1, 1, 1),
      (1, - 1, 1, 1),
      (- 1, - 1, 1, 1)]"

definition frustumPlanePointIndices :: "(nat \<times> nat \<times> nat) list" where
  "frustumPlanePointIndices =
     [(0, 1, 2), (6, 5, 4), (0, 3, 7), (2, 1, 5), (3, 2, 6), (0, 4, 5)]"

fun vec3_concat :: "vec3 \<Rightarrow> real \<Rightarrow> vec4" where
  "vec3_concat (n0, n1, n2) d = (n0, n1, n2, d)"

text \<open>
  \<^verbatim>\<open>Math.pow(2, zoom)\<close> is the real power \<open>2 powr zoom\<close>.  An entry \<^verbatim>\<open>[p0, p1, p2]\<close>
  of \<^verbatim>\<open>frustumPlanePointIndices\<close> is a triple, and \<^verbatim>\<open>n.concat(d)\<close> appends the
  offset to the normal.
\<close>

definition fromInvProjectionMatrix :: "mat4 \<Rightarrow> real \<Rightarrow> real \<Rightarrow> bool \<Rightarrow> frustum" where
  "fromInvProjectionMatrix invProj worldSize zoom zInMeters =
     (let scale = 2 powr zoom;
          frustumCoords =
            map (\<lambda>v.
                let s = vec4_transformMat4 v invProj;
                    k = 1 / vec4_w s / worldSize * scale
                in vec4_mul s (k, k, if zInMeters then 1 / vec4_w s else k, k))
              clipSpaceCorners;
          frustumPlanes =
            map (\<lambda>(p0, p1, p2).
                let a = vec3_sub (vec4_xyz (frustumCoords ! p0)) (vec4_xyz (frustumCoords ! p1));
                    b = vec3_sub (vec4_xyz (frustumCoords ! p2)) (vec4_xyz (frustumCoords ! p1));
                    n = vec3_normalize (vec3_cross a b);
                    d = - vec3_dot n (vec4_xyz (frustumCoords ! p1))
                in vec3_concat n d)
              frustumPlanePointIndices
      in Frustum frustumCoords frustumPlanes)"

subsection \<open>Aabb\<close>

record aabb =
  min_pt :: vec3
  max_pt :: vec3
  center :: vec3

definition Aabb :: "vec3 \<Rightarrow> vec3 \<Rightarrow> aabb" where
  "Aabb min0 max0 =
     \<lparr>min_pt = min0, max_pt = max0, center = vec3_scale (vec3_add min0 max0) (1 / 2)\<rparr>"

text \<open>
  The constructor stores \<open>min\<close>, \<open>max\<close> and the center it computes from them.  The index
  of \<^verbatim>\<open>quadrant\<close> is a natural number.  The loop of \<^verbatim>\<open>quadrant\<close> runs over the
  positions of \<^verbatim>\<open>split\<close>; its state is the pair of the two vectors it updates.  The two
  vectors are \<^verbatim>\<open>vec3.clone\<close> copies, so they hold single-precision numbers and every
  store into them rounds.  The constructor computes the center in \<^verbatim>\<open>[]\<close> vectors, in
  doubles.
\<close>

definition quadrant :: "aabb \<Rightarrow> nat \<Rightarrow> aabb" where
  "quadrant this index =
     (let split = [index mod 2 = 0, index < 2];
          qMin = vec3_clone (min_pt this);
          qMax = vec3_clone (max_pt this);
          (qMin, qMax) =
            fold (\<lambda>axis (qMin, qMax).
                (vec3_set qMin axis
                   (fround (if split ! axis then vec3_get (min_pt this) axis
                            else vec3_get (center this) axis)),
                 vec3_set qMax axis
                   (fround (if split ! axis then vec3_get (center this) axis
                            else vec3_get (max_pt this) axis))))
              [0 ..< length split] (qMin, qMax);
          qMax = vec3_set qMax 2 (fround (vec3_get (max_pt this) 2))
      in Aabb qMin qMax)"

definition distanceX :: "aabb \<Rightarrow> vec3 \<Rightarrow> real" where
  "distanceX this point =
     (let pointOnAabb = max (min (vec3_get (max_pt this) 0) (vec3_get point 0))
                            (vec3_get (min_pt this) 0)
      in pointOnAabb - vec3_get point 0)"

definition distanceY :: "aabb \<Rightarrow> vec3 \<Rightarrow> real" where
  "distanceY this point =
     (let pointOnAabb = max (min (vec3_get (max_pt this) 1) (vec3_get point 1))
                            (vec3_get (min_pt this) 1)
      in pointOnAabb - vec3_get point 1)"

definition distanceZ :: "aabb \<Rightarrow> vec3 \<Rightarrow> real" where
  "distanceZ this point =
     (let pointOnAabb = max (min (vec3_get (max_pt this) 2) (vec3_get point 2))
                            (vec3_get (min_pt this) 2)
      in pointOnAabb - vec3_get point 2)"

definition getCorners :: "aabb \<Rightarrow> vec3 list" where
  "getCorners this =
     (let mn = min_pt this; mx = max_pt this in
      [(vec3_get mn 0, vec3_get mn 1, vec3_get mn 2),
       (vec3_get mx 0, vec3_get mn 1, vec3_get mn 2),
       (vec3_get mx 0, vec3_get mx 1, vec3_get mn 2),
       (vec3_get mn 0, vec3_get mx 1, vec3_get mn 2),
       (vec3_get mn 0, vec3_get mn 1, vec3_get mx 2),
       (vec3_get mx 0, vec3_get mn 1, vec3_get mx 2),
       (vec3_get mx 0, vec3_get mx 1, vec3_get mx 2),
       (vec3_get mn 0, vec3_get mx 1, vec3_get mx 2)])"

text \<open>
  \<^verbatim>\<open>intersects\<close>.  The inner loop adds the boolean of the half-space test (1 or 0) to
  \<^verbatim>\<open>pointsInside\<close>.  The loop over the planes carries \<^verbatim>\<open>fullyInside\<close> and leaves
  the method with 0 at the first plane that has no corner inside: \<open>None\<close> is that early
  return, \<open>Some fullyInside\<close> the flag after the last plane.
\<close>

definition pointsInsideCount :: "vec4 \<Rightarrow> vec3 list \<Rightarrow> nat" where
  "pointsInsideCount plane aabbPoints =
     fold (\<lambda>pt pointsInside.
         pointsInside + (if vec3_dot (vec4_xyz plane) pt + vec4_w plane \<ge> 0 then 1 else 0))
       aabbPoints 0"

fun planesLoop :: "vec3 list \<Rightarrow> vec4 list \<Rightarrow> bool \<Rightarrow> bool option" where
  "planesLoop aabbPoints [] fullyInside = Some fullyInside"
| "planesLoop aabbPoints (plane # rest) fullyInside =
     (let pointsInside = pointsInsideCount plane aabbPoints in
      if pointsInside = 0 then None
      else planesLoop aabbPoints rest
             (if pointsInside \<noteq> length aabbPoints then False else fullyInside))"

text \<open>\<^verbatim>\<open>Number.MAX_VALUE\<close>, the largest finite double.\<close>

definition MAX_VALUE :: real where
  "MAX_VALUE = (2 ^ 53 - 1) * 2 ^ 971"

definition projMinMax :: "vec4 list \<Rightarrow> nat \<Rightarrow> real \<Rightarrow> real \<times> real" where
  "projMinMax pts axis mn =
     fold (\<lambda>p (projMin, projMax).
         let projectedPoint = vec3_get (vec4_xyz p) axis - mn
         in (min projMin projectedPoint, max projMax projectedPoint))
       pts (MAX_VALUE, - MAX_VALUE)"

fun axesLoop :: "aabb \<Rightarrow> frustum \<Rightarrow> nat list \<Rightarrow> nat" where
  "axesLoop this f [] = 1"
| "axesLoop this f (axis # rest) =
     (let (projMin, projMax) = projMinMax (points f) axis (vec3_get (min_pt this) axis) in
      if projMax < 0 \<or> projMin > vec3_get (max_pt this) axis - vec3_get (min_pt this) axis
      then 0
      else axesLoop this f rest)"

definition intersects :: "aabb \<Rightarrow> frustum \<Rightarrow> nat" where
  "intersects this f =
     (case planesLoop (getCorners this) (planes f) True of
        None \<Rightarrow> 0
      | Some fullyInside \<Rightarrow> if fullyInside then 2 else axesLoop this f [0, 1, 2])"


subsection \<open>Quantities the statements about the sphere query use\<close>

text \<open>
  The coefficients of the quadratic \<open>a t\<^sup>2 + b t + c\<close> whose roots are the parameters at
  which the line of the ray meets the sphere, its discriminant and its smaller root, and
  the point of the ray at parameter \<open>t\<close>.
\<close>

definition sphere_a :: "ray \<Rightarrow> real" where
  "sphere_a this = vec3_dot (dir this) (dir this)"

definition sphere_b :: "ray \<Rightarrow> vec3 \<Rightarrow> real" where
  "sphere_b this ctr = 2 * vec3_dot (vec3_sub (pos this) ctr) (dir this)"

definition sphere_c :: "ray \<Rightarrow> vec3 \<Rightarrow> real \<Rightarrow> real" where
  "sphere_c this ctr r = vec3_dot (vec3_sub (pos this) ctr) (vec3_sub (pos this) ctr) - r\<^sup>2"

definition discriminant :: "ray \<Rightarrow> vec3 \<Rightarrow> real \<Rightarrow> real" where
  "discriminant this ctr r = (sphere_b this ctr)\<^sup>2 - 4 * sphere_a this * sphere_c this ctr r"

definition nearerRoot :: "ray \<Rightarrow> vec3 \<Rightarrow> real \<Rightarrow> real" where
  "nearerRoot this ctr r =
     (- sphere_b this ctr - sqrt (discriminant this ctr r)) / (2 * sphere_a this)"

definition rayPoint :: "ray \<Rightarrow> real \<Rightarrow> vec3" where
  "rayPoint this t = vec3_add (pos this) (vec3_scale (dir this) t)"

text \<open>
  What the source writes in the branch \<^verbatim>\<open>d < 0.0\<close> (lines 42 to 50), in one
  expression: its \<open>t\<close> is the dot product of \<open>center - pos\<close> with \<open>dir\<close>, cut off at 0.
\<close>

definition missBranchOutput :: "ray \<Rightarrow> vec3 \<Rightarrow> real \<Rightarrow> vec3" where
  "missBranchOutput this ctr r =
     (let t = max (vec3_dot (vec3_sub ctr (pos this)) (dir this)) 0;
          pointOnRay = rayPoint this t;
          pointToGlobe = vec3_sub ctr pointOnRay
      in vec3_sub
           (vec3_add pointOnRay (vec3_scale pointToGlobe (1 - r / vec3_length pointToGlobe)))
           ctr)"

text \<open>
  The projection of a vector \<open>v\<close> onto the direction \<open>d\<close>, as the parameter \<open>t\<close> for which
  \<open>t * d\<close> is the foot of the perpendicular from \<open>v\<close>: \<open>dot(v, d) / dot(d, d)\<close>.  With it,
  the vector the text of the miss case describes: \<open>t\<close> is the projection of
  \<open>-centerToP = center - pos\<close> onto \<open>dir\<close>, cut off at 0, \<open>pointOnRay = pos + t * dir\<close> is
  the point of the ray closest to the center, the vector from it to the center is scaled
  by \<open>1 - r / length\<close> and added to it, and the center is subtracted.
\<close>

definition projectionOnto :: "vec3 \<Rightarrow> vec3 \<Rightarrow> real" where
  "projectionOnto v d = vec3_dot v d / vec3_dot d d"

definition missOutput :: "ray \<Rightarrow> vec3 \<Rightarrow> real \<Rightarrow> vec3" where
  "missOutput this ctr r =
     (let t = max (projectionOnto (vec3_sub ctr (pos this)) (dir this)) 0;
          pointOnRay = rayPoint this t;
          toCenter = vec3_sub ctr pointOnRay;
          v = vec3_scale toCenter (1 - r / vec3_length toCenter)
      in vec3_sub (vec3_add pointOnRay v) ctr)"


subsection \<open>Notions the statements about Frustum and Aabb use\<close>

text \<open>
  A corner is inside the half-space of a plane \<open>(n, d)\<close> when \<open>dot(n, corner) + d \<ge> 0\<close>.
\<close>

definition insideHalfSpace :: "vec4 \<Rightarrow> vec3 \<Rightarrow> bool" where
  "insideHalfSpace plane corner = (vec3_dot (vec4_xyz plane) corner + vec4_w plane \<ge> 0)"

text \<open>
  The coordinates of the frustum corners on an axis, each minus the box's \<open>min\<close> on
  that axis; the interval \<open>[projMin, projMax]\<close> they span; and the extent
  \<open>[0, max - min]\<close> of the box on the axis.
\<close>

definition projectedCoords :: "aabb \<Rightarrow> frustum \<Rightarrow> nat \<Rightarrow> real set" where
  "projectedCoords this f axis =
     (\<lambda>p. vec3_get (vec4_xyz p) axis - vec3_get (min_pt this) axis) ` set (points f)"

definition projectedInterval :: "aabb \<Rightarrow> frustum \<Rightarrow> nat \<Rightarrow> real set" where
  "projectedInterval this f axis =
     {Min (projectedCoords this f axis) .. Max (projectedCoords this f axis)}"

definition boxExtent :: "aabb \<Rightarrow> nat \<Rightarrow> real set" where
  "boxExtent this axis = {0 .. vec3_get (max_pt this) axis - vec3_get (min_pt this) axis}"

text \<open>
  A corner of the frustum from a clip-space corner: the homogeneous transform by
  \<open>invProj\<close>, then \<open>x\<close> and \<open>y\<close> times \<open>k = (1 / w) / worldSize * 2\<^sup>z\<^sup>o\<^sup>o\<^sup>m\<close>, and \<open>z\<close>
  times \<open>1 / w\<close> when \<open>zInMeters\<close> is set and times \<open>k\<close> otherwise.  The fourth component
  is \<open>w * k\<close>.
\<close>

definition frustumCorner :: "mat4 \<Rightarrow> real \<Rightarrow> real \<Rightarrow> bool \<Rightarrow> vec4 \<Rightarrow> vec4" where
  "frustumCorner invProj worldSize zoom zInMeters v =
     (case vec4_transformMat4 v invProj of
        (x, y, z, w) \<Rightarrow>
          let k = (1 / w) / worldSize * 2 powr zoom
          in (x * k, y * k, z * (if zInMeters then 1 / w else k), w * k))"

text \<open>
  The plane through three corners: \<open>n = normalize(cross(c0 - c1, c2 - c1))\<close> and
  \<open>d = - dot(n, c1)\<close>.
\<close>

definition planeThrough :: "vec4 \<Rightarrow> vec4 \<Rightarrow> vec4 \<Rightarrow> vec4" where
  "planeThrough c0 c1 c2 =
     (let n = vec3_normalize
                (vec3_cross (vec3_sub (vec4_xyz c0) (vec4_xyz c1))
                            (vec3_sub (vec4_xyz c2) (vec4_xyz c1)))
      in vec3_concat n (- vec3_dot n (vec4_xyz c1)))"

text \<open>
  The rectangle a box covers in the \<open>(x, y)\<close> plane, the interior of that rectangle, and
  the range of the box in \<open>z\<close>.
\<close>

definition rectXY :: "aabb \<Rightarrow> (real \<times> real) set" where
  "rectXY b =
     {(x, y). vec3_get (min_pt b) 0 \<le> x \<and> x \<le> vec3_get (max_pt b) 0 \<and>
              vec3_get (min_pt b) 1 \<le> y \<and> y \<le> vec3_get (max_pt b) 1}"

definition interiorXY :: "aabb \<Rightarrow> (real \<times> real) set" where
  "interiorXY b =
     {(x, y). vec3_get (min_pt b) 0 < x \<and> x < vec3_get (max_pt b) 0 \<and>
              vec3_get (min_pt b) 1 < y \<and> y < vec3_get (max_pt b) 1}"

definition rangeZ :: "aabb \<Rightarrow> real \<times> real" where
  "rangeZ b = (vec3_get (min_pt b) 2, vec3_get (max_pt b) 2)"


subsection \<open>The frustum of the identity\<close>

text \<open>
  The identity matrix (gl-matrix's \<^verbatim>\<open>mat4.identity\<close>), the inverse projection of the
  view volume \<open>[-1, 1]\<^sup>3\<close>.
\<close>

definition identityMat4 :: mat4 where
  "identityMat4 i = (if i = 0 \<or> i = 5 \<or> i = 10 \<or> i = 15 then 1 else 0)"


section \<open>Single-precision rounding\<close>

lemma fround_zero: "fround 0 = 0"
  by (simp add: fround_def)

lemma roundHalfEven_of_int: "roundHalfEven (of_int n) = n"
  by (simp add: roundHalfEven_def)

text \<open>
  The rounding of a number whose binade is known: for \<open>2\<^sup>k \<le> \<bar>x\<bar> < 2\<^sup>k\<^sup>+\<^sup>1\<close> with
  \<open>k \<ge> -126\<close> the number is rounded to a multiple of \<open>2\<^sup>k\<^sup>-\<^sup>2\<^sup>3\<close>.
\<close>

lemma fround_binade:
  fixes k :: int
  assumes "k \<ge> - 126"
    and "2 powr (of_int k) \<le> \<bar>x\<bar>" and "\<bar>x\<bar> < 2 powr (of_int (k + 1))"
  shows "fround x = of_int (roundHalfEven (x / 2 powr (of_int (k - 23))))
                      * 2 powr (of_int (k - 23))"
proof -
  have "(0 :: real) < 2 powr (of_int k)" by simp
  with assms(2) have pos: "\<bar>x\<bar> > 0" by linarith
  then have nz: "x \<noteq> 0" by auto
  have fl: "\<lfloor>log 2 \<bar>x\<bar>\<rfloor> = k"
    using pos assms(2,3) by (subst floor_log_eq_powr_iff) simp_all
  have e: "max (\<lfloor>log 2 \<bar>x\<bar>\<rfloor> - 23) (- 149) = k - 23"
    using assms(1) by (simp add: fl)
  show ?thesis
    using nz by (simp only: fround_def Let_def e if_False)
qed

text \<open>
  Values of the rounding: small integers are single-precision numbers;
  \<open>16777217 = 2\<^sup>2\<^sup>4 + 1\<close> is not and is rounded to \<open>2\<^sup>2\<^sup>4\<close>, and its half, a tie, is rounded
  to the even \<open>8388608\<close>; \<open>1 / 3\<close> is rounded to \<open>11184811 * 2\<^sup>-\<^sup>2\<^sup>5\<close>.
\<close>

lemma fround_values:
  "fround 1 = 1" "fround 2 = 2" "fround (- 1) = - 1"
  "fround 16777217 = 16777216" "fround (- 16777217) = - 16777216"
  "fround (16777217 / 2) = 8388608"
  "fround (1 / 3) = 11184811 / 33554432"
  using fround_binade [of 0 1] fround_binade [of 1 2] fround_binade [of 0 "- 1"]
    fround_binade [of 24 16777217] fround_binade [of 24 "- 16777217"]
    fround_binade [of 23 "16777217 / 2"] fround_binade [of "- 2" "1 / 3"]
  by (simp_all add: roundHalfEven_def powr_neg_numeral)

section \<open>Properties of Ray\<close>

subsection \<open>Auxiliary facts\<close>

lemma vec3_equals_refl: "vec3_equals a a"
  by (cases a) (auto simp add: EPSILON_def max_def)

text \<open>
  The comparison holds for points that differ: within \<open>10\<^sup>-\<^sup>6\<close> near the origin, and within
  \<open>10\<^sup>-\<^sup>6\<close> times the coordinate for large coordinates.
\<close>

lemma vec3_equals_tolerance:
  "vec3_equals (0, 0, 0) (5 / 10 ^ 7, 0, 0)"
  "vec3_equals (3000000, 0, 0) (3000002, 0, 0)"
  "\<not> vec3_equals (0, 0, 0) (2 / 10 ^ 6, 0, 0)"
  by (simp_all add: EPSILON_def)

lemma vec3_length_axis: "vec3_length (0, y, 0) = \<bar>y\<bar>"
  by simp

lemma vec3_length_sq: "vec3_length v = sqrt (vec3_squaredLength v)"
  by (cases v) simp

lemma vec3_squaredLength_dot: "vec3_squaredLength v = vec3_dot v v"
  by (cases v) simp

lemma vec3_squaredLength_pos: "v \<noteq> (0, 0, 0) \<Longrightarrow> vec3_squaredLength v > 0"
proof (cases v)
  case (fields x y z)
  assume "v \<noteq> (0, 0, 0)"
  with fields have nz: "x \<noteq> 0 \<or> y \<noteq> 0 \<or> z \<noteq> 0" by simp
  have "x * x \<ge> 0" "y * y \<ge> 0" "z * z \<ge> 0" by simp_all
  moreover from nz have "x * x > 0 \<or> y * y > 0 \<or> z * z > 0"
    by (simp add: zero_less_mult_iff) linarith
  ultimately have "x * x + y * y + z * z > 0" by linarith
  with fields show ?thesis by simp
qed

lemma vec3_length_scale: "vec3_length (vec3_scale v s) = \<bar>s\<bar> * vec3_length v"
proof (cases v)
  case (fields x y z)
  have "x * s * (x * s) + y * s * (y * s) + z * s * (z * s) = (s * s) * (x * x + y * y + z * z)"
    by (simp add: algebra_simps)
  then show ?thesis using fields by (simp add: real_sqrt_mult)
qed

lemma quadratic_root:
  fixes a b c :: real
  assumes "a > 0" and "b * b - 4 * a * c \<ge> 0"
  defines "t \<equiv> (- b - sqrt (b * b - 4 * a * c)) / (2 * a)"
  shows "a * t * t + b * t + c = 0"
proof -
  define s where "s = sqrt (b * b - 4 * a * c)"
  have s2: "s * s = b * b - 4 * a * c"
    unfolding s_def using assms(2) by simp
  have "2 * a * t = - b - s" using assms(1) by (simp add: t_def s_def)
  then have "2 * a * t + b = - s" by simp
  then have "(2 * a * t + b) * (2 * a * t + b) = s * s" by simp
  with s2 have "4 * a * (a * t * t + b * t + c) = 0" by (simp add: algebra_simps)
  with assms(1) show ?thesis by simp
qed

lemma quadratic_positive:
  fixes a b c t :: real
  assumes "a > 0" and "b * b - 4 * a * c < 0"
  shows "a * t * t + b * t + c > 0"
proof -
  have "4 * a * (a * t * t + b * t + c) = (2 * a * t + b) * (2 * a * t + b) - (b * b - 4 * a * c)"
    by (simp add: algebra_simps)
  moreover have "(2 * a * t + b) * (2 * a * t + b) \<ge> 0" by simp
  ultimately have "4 * a * (a * t * t + b * t + c) > 0" using assms(2) by linarith
  with assms(1) show ?thesis by (simp add: zero_less_mult_iff)
qed

lemma squaredLength_rayPoint:
  "vec3_squaredLength (vec3_sub (rayPoint this t) ctr) =
     sphere_a this * t * t + sphere_b this ctr * t + (sphere_c this ctr r + r\<^sup>2)"
  by (cases "pos this"; cases "dir this"; cases ctr)
    (simp add: rayPoint_def sphere_a_def sphere_b_def sphere_c_def algebra_simps)

lemma vec3_squaredLength_sub_commute:
  "vec3_squaredLength (vec3_sub a b) = vec3_squaredLength (vec3_sub b a)"
  by (cases a; cases b) (simp add: algebra_simps)

lemma rescale_towards_center:
  "vec3_sub (vec3_add q (vec3_scale (vec3_sub c q) (1 - k))) c = vec3_scale (vec3_sub c q) (- k)"
  by (cases q; cases c) (simp add: algebra_simps)

lemma vec3_negate_sub: "vec3_scale (vec3_sub a b) (- 1) = vec3_sub b a"
  by (cases a; cases b) simp

lemma closestPointOnSphere_cases:
  assumes "dir this \<noteq> (0, 0, 0)" and "r > 0" and "\<not> vec3_equals (pos this) ctr"
  shows "closestPointOnSphere this ctr r out =
    (if discriminant this ctr r < 0 then Inr (False, missBranchOutput this ctr r)
     else if nearerRoot this ctr r < 0 then
       Inr (False, vec3_scale (vec3_sub (pos this) ctr) (r / vec3_length (vec3_sub (pos this) ctr)))
     else Inr (True, vec3_sub (rayPoint this (nearerRoot this ctr r)) ctr))"
proof -
  have sq: "vec3_squaredLength (dir this) > 0"
    using assms(1) by (rule vec3_squaredLength_pos)
  then have a: "vec3_dot (dir this) (dir this) > 0"
    by (simp add: vec3_squaredLength_dot)
  have guard: "\<not> (vec3_equals (pos this) ctr \<or> r = 0)"
    using assms(2,3) by simp
  show ?thesis
    unfolding closestPointOnSphere_def
    using sq a guard assms(2)
    by (simp add: Let_def discriminant_def nearerRoot_def sphere_a_def sphere_b_def
        sphere_c_def missBranchOutput_def rayPoint_def vec3_negate_sub power2_eq_square)
qed

lemma missBranchOutput_length:
  assumes "dir this \<noteq> (0, 0, 0)" and "r > 0" and "discriminant this ctr r < 0"
  shows "vec3_length (missBranchOutput this ctr r) = r"
proof -
  define t where "t = max (vec3_dot (vec3_sub ctr (pos this)) (dir this)) 0"
  define g where "g = vec3_sub ctr (rayPoint this t)"
  have a: "sphere_a this > 0"
    using vec3_squaredLength_pos [OF assms(1)]
    by (simp add: sphere_a_def vec3_squaredLength_dot)
  have "sphere_b this ctr * sphere_b this ctr - 4 * sphere_a this * sphere_c this ctr r < 0"
    using assms(3) by (simp add: discriminant_def power2_eq_square)
  from quadratic_positive [OF a this, of t]
  have "vec3_squaredLength (vec3_sub (rayPoint this t) ctr) > r\<^sup>2"
    by (simp add: squaredLength_rayPoint [where r = r])
  then have gl: "vec3_squaredLength g > r\<^sup>2"
    by (simp add: g_def vec3_squaredLength_sub_commute)
  have "r\<^sup>2 > 0" using assms(2) by simp
  with gl have "vec3_squaredLength g > 0" by linarith
  then have L: "vec3_length g > 0" by (simp add: vec3_length_sq)
  have "missBranchOutput this ctr r = vec3_scale g (- (r / vec3_length g))"
    by (simp add: missBranchOutput_def Let_def t_def [symmetric] g_def [symmetric]
        rescale_towards_center)
  then have "vec3_length (missBranchOutput this ctr r) = \<bar>- (r / vec3_length g)\<bar> * vec3_length g"
    by (simp only: vec3_length_scale)
  also have "\<dots> = r" using L assms(2) by simp
  finally show ?thesis .
qed

lemma behind_length:
  assumes "r > 0" and "p \<noteq> ctr"
  shows "vec3_length (vec3_scale (vec3_sub p ctr) (r / vec3_length (vec3_sub p ctr))) = r"
proof -
  have "vec3_sub p ctr \<noteq> (0, 0, 0)"
    using assms(2) by (cases p; cases ctr) auto
  then have "vec3_length (vec3_sub p ctr) > 0"
    by (simp add: vec3_length_sq vec3_squaredLength_pos)
  then show ?thesis using assms(1) by (simp add: vec3_length_scale)
qed

lemma hit_length:
  assumes "dir this \<noteq> (0, 0, 0)" and "r > 0" and "discriminant this ctr r \<ge> 0"
  shows "vec3_length (vec3_sub (rayPoint this (nearerRoot this ctr r)) ctr) = r"
proof -
  have a: "sphere_a this > 0"
    using vec3_squaredLength_pos [OF assms(1)]
    by (simp add: sphere_a_def vec3_squaredLength_dot)
  have d: "sphere_b this ctr * sphere_b this ctr - 4 * sphere_a this * sphere_c this ctr r \<ge> 0"
    using assms(3) by (simp add: discriminant_def power2_eq_square)
  have t: "nearerRoot this ctr r =
      (- sphere_b this ctr
        - sqrt (sphere_b this ctr * sphere_b this ctr - 4 * sphere_a this * sphere_c this ctr r))
      / (2 * sphere_a this)"
    by (simp add: nearerRoot_def discriminant_def power2_eq_square)
  have "sphere_a this * nearerRoot this ctr r * nearerRoot this ctr r
        + sphere_b this ctr * nearerRoot this ctr r + sphere_c this ctr r = 0"
    unfolding t by (rule quadratic_root [OF a d])
  then have "vec3_squaredLength (vec3_sub (rayPoint this (nearerRoot this ctr r)) ctr) = r\<^sup>2"
    by (simp add: squaredLength_rayPoint [where r = r])
  then show ?thesis using assms(2) by (simp add: vec3_length_sq)
qed

lemma vec3_not_equals_distinct: "\<not> vec3_equals a b \<Longrightarrow> a \<noteq> b"
proof
  assume "\<not> vec3_equals a b" and "a = b"
  then show False by (simp add: vec3_equals_refl)
qed


subsection \<open>Ray.intersectsPlane\<close>

text \<open>
  The method in components: the difference \<open>point - pos\<close> and the point
  \<open>pos + t * dir\<close> pass through single precision.
\<close>

lemma intersectsPlane_explicit:
  "intersectsPlane \<lparr>pos = (px, py, pz), dir = (dx, dy, dz)\<rparr> (qx, qy, qz) (nx, ny, nz) out =
     (let D = nx * dx + ny * dy + nz * dz;
          t = (fround (qx - px) * nx + fround (qy - py) * ny + fround (qz - pz) * nz) / D
      in if \<bar>D\<bar> < 1 / 10 ^ 6 then (False, out)
         else (True, (fround (px + t * dx), fround (py + t * dy), fround (pz + t * dz))))"
  by (simp add: intersectsPlane_def Let_def mult.commute)

lemma intersectsPlane_parallel:
  assumes "\<bar>vec3_dot normal (dir this)\<bar> < 1 / 10 ^ 6"
  shows "intersectsPlane this pt normal out = (False, out)"
  using assms by (simp add: intersectsPlane_def)

text \<open>
  Claim C5.  The claim is that a call with \<open>\<bar>dot(normal, dir)\<bar> \<ge> 10\<^sup>-\<^sup>6\<close> returns true and
  writes \<open>pos + t * dir\<close> with \<open>t = dot(point - pos, normal) / dot(normal, dir)\<close>.  The
  source returns true but writes the point rounded to single precision.  The ray from
  \<open>(16777217, 0, 1)\<close> in the direction \<open>(0, 0, -1)\<close> meets the plane \<open>z = 0\<close> at \<open>t = 1\<close>
  in the point \<open>(16777217, 0, 0)\<close>; after the call a buffer that held \<open>(7, 7, 7)\<close> holds
  \<open>(16777216, 0, 0)\<close>.
\<close>

theorem intersectsPlane_single_precision:
  "intersectsPlane \<lparr>pos = (16777217, 0, 1), dir = (0, 0, - 1)\<rparr> (0, 0, 0) (0, 0, 1) (7, 7, 7)
     = (True, (16777216, 0, 0))"
  by (simp add: intersectsPlane_def fround_zero fround_values)

subsection \<open>Ray.closestPointOnSphere\<close>

text \<open>
  Claim C1.  The claim is that a call with \<open>pos = center\<close> or \<open>r = 0\<close> returns false and
  writes the zero vector into the caller's buffer.  The source returns false but leaves the
  buffer as it was: at \<open>pos = center = (1, 2, 3)\<close>, \<open>r = 1\<close>, and at
  \<open>pos = (0, 0, 0)\<close>, \<open>center = (5, 0, 0)\<close>, \<open>r = 0\<close>, a buffer holding \<open>(7, 7, 7)\<close>
  still holds \<open>(7, 7, 7)\<close> after the call.
\<close>

theorem closestPointOnSphere_degenerate_keeps_out:
  "closestPointOnSphere \<lparr>pos = (1, 2, 3), dir = (1, 0, 0)\<rparr> (1, 2, 3) 1 (7, 7, 7)
     = Inr (False, (7, 7, 7))
   \<and> closestPointOnSphere \<lparr>pos = (0, 0, 0), dir = (1, 0, 0)\<rparr> (5, 0, 0) 0 (7, 7, 7)
     = Inr (False, (7, 7, 7))"
  by (simp add: closestPointOnSphere_def EPSILON_def)

text \<open>
  The same holds at every input that passes the assertion and meets the guard.
\<close>

lemma closestPointOnSphere_degenerate:
  assumes "vec3_squaredLength (dir this) > 0" and "r \<ge> 0"
    and "pos this = ctr \<or> r = 0"
  shows "closestPointOnSphere this ctr r out = Inr (False, out)"
  using assms by (auto simp add: closestPointOnSphere_def vec3_equals_refl)

text \<open>
  Claim C6, amended.  Let a call be non-degenerate when \<open>dir\<close> is not the zero vector,
  \<open>r > 0\<close> and \<^verbatim>\<open>vec3.equals(pos, center)\<close> is false (the comparison of the source,
  which has a tolerance).  For every such call with discriminant \<open>d = b\<^sup>2 - 4ac \<ge> 0\<close> and
  nearer root \<open>t = (-b - sqrt d) / (2a)\<close>: if \<open>t < 0\<close> the call returns false and writes
  \<open>pos - center\<close> rescaled to length \<open>r\<close>; otherwise it returns true and writes
  \<open>pos + t * dir - center\<close>.  A non-degenerate call returns true if and only if
  \<open>d \<ge> 0\<close> and \<open>t \<ge> 0\<close>.
\<close>

theorem closestPointOnSphere_real_roots:
  assumes "dir this \<noteq> (0, 0, 0)" and "r > 0" and "\<not> vec3_equals (pos this) ctr"
  shows "(discriminant this ctr r \<ge> 0 \<and> nearerRoot this ctr r < 0 \<longrightarrow>
            closestPointOnSphere this ctr r out =
              Inr (False, vec3_scale (vec3_sub (pos this) ctr)
                            (r / vec3_length (vec3_sub (pos this) ctr)))
            \<and> vec3_length (vec3_scale (vec3_sub (pos this) ctr)
                            (r / vec3_length (vec3_sub (pos this) ctr))) = r)
       \<and> (discriminant this ctr r \<ge> 0 \<and> nearerRoot this ctr r \<ge> 0 \<longrightarrow>
            closestPointOnSphere this ctr r out =
              Inr (True, vec3_sub (vec3_add (pos this)
                                    (vec3_scale (dir this) (nearerRoot this ctr r))) ctr))
       \<and> ((\<exists>p. closestPointOnSphere this ctr r out = Inr (True, p)) \<longleftrightarrow>
            discriminant this ctr r \<ge> 0 \<and> nearerRoot this ctr r \<ge> 0)"
proof -
  have neq: "pos this \<noteq> ctr"
    using assms(3) by (rule vec3_not_equals_distinct)
  note c = closestPointOnSphere_cases [OF assms, of out]
  show ?thesis
    using behind_length [OF assms(2) neq]
    by (auto simp add: c rayPoint_def simp del: split_paired_Ex)
qed

text \<open>
  The theorem at two rays along the x axis towards and away from the unit sphere at the
  origin: from \<open>(-3, 0, 0)\<close> the ray hits the sphere at \<open>(-1, 0, 0)\<close>; from \<open>(3, 0, 0)\<close>
  the sphere is behind the origin of the ray and the nearest point is \<open>(1, 0, 0)\<close>.
\<close>

theorem closestPointOnSphere_real_roots_witness:
  "\<not> vec3_equals (pos \<lparr>pos = (- 3, 0, 0), dir = (1, 0, 0)\<rparr>) (0, 0, 0)
   \<and> discriminant \<lparr>pos = (- 3, 0, 0), dir = (1, 0, 0)\<rparr> (0, 0, 0) 1 = 4
   \<and> nearerRoot \<lparr>pos = (- 3, 0, 0), dir = (1, 0, 0)\<rparr> (0, 0, 0) 1 = 2
   \<and> closestPointOnSphere \<lparr>pos = (- 3, 0, 0), dir = (1, 0, 0)\<rparr> (0, 0, 0) 1 (0, 0, 0)
       = Inr (True, (- 1, 0, 0))
   \<and> \<not> vec3_equals (pos \<lparr>pos = (3, 0, 0), dir = (1, 0, 0)\<rparr>) (0, 0, 0)
   \<and> discriminant \<lparr>pos = (3, 0, 0), dir = (1, 0, 0)\<rparr> (0, 0, 0) 1 = 4
   \<and> nearerRoot \<lparr>pos = (3, 0, 0), dir = (1, 0, 0)\<rparr> (0, 0, 0) 1 = - 4
   \<and> closestPointOnSphere \<lparr>pos = (3, 0, 0), dir = (1, 0, 0)\<rparr> (0, 0, 0) 1 (0, 0, 0)
       = Inr (False, (1, 0, 0))"
proof -
  have d1: "discriminant \<lparr>pos = (- 3, 0, 0), dir = (1, 0, 0)\<rparr> (0, 0, 0) 1 = 4"
    by (simp add: discriminant_def sphere_a_def sphere_b_def sphere_c_def)
  have t1: "nearerRoot \<lparr>pos = (- 3, 0, 0), dir = (1, 0, 0)\<rparr> (0, 0, 0) 1 = 2"
    by (simp add: nearerRoot_def d1 sphere_a_def sphere_b_def)
  have d2: "discriminant \<lparr>pos = (3, 0, 0), dir = (1, 0, 0)\<rparr> (0, 0, 0) 1 = 4"
    by (simp add: discriminant_def sphere_a_def sphere_b_def sphere_c_def)
  have t2: "nearerRoot \<lparr>pos = (3, 0, 0), dir = (1, 0, 0)\<rparr> (0, 0, 0) 1 = - 4"
    by (simp add: nearerRoot_def d2 sphere_a_def sphere_b_def)
  have e1: "\<not> vec3_equals (pos \<lparr>pos = (- 3, 0, 0), dir = (1, 0, 0)\<rparr>) (0, 0, 0)"
    by (simp add: EPSILON_def)
  have e2: "\<not> vec3_equals (pos \<lparr>pos = (3, 0, 0), dir = (1, 0, 0)\<rparr>) (0, 0, 0)"
    by (simp add: EPSILON_def)
  show ?thesis
    using closestPointOnSphere_real_roots
            [of "\<lparr>pos = (- 3, 0, 0), dir = (1, 0, 0)\<rparr>" 1 "(0, 0, 0)" "(0, 0, 0)", OF _ _ e1]
          closestPointOnSphere_real_roots
            [of "\<lparr>pos = (3, 0, 0), dir = (1, 0, 0)\<rparr>" 1 "(0, 0, 0)" "(0, 0, 0)", OF _ _ e2]
    by (simp add: d1 t1 d2 t2 EPSILON_def)
qed

text \<open>
  Claim C6 as it was stated, with \<open>pos \<noteq> center\<close> in place of the comparison of the
  source, fails: the ray from the origin along the x axis meets the sphere of radius
  \<open>3 * 10\<^sup>-\<^sup>7\<close> around \<open>(5 * 10\<^sup>-\<^sup>7, 0, 0)\<close> at \<open>t = 2 * 10\<^sup>-\<^sup>7 \<ge> 0\<close>, but the two
  points are equal within the tolerance \<open>10\<^sup>-\<^sup>6\<close> of \<^verbatim>\<open>vec3.equals\<close>, so the call takes
  the degenerate exit: it returns false and writes nothing.
\<close>

theorem closestPointOnSphere_real_roots_counterexample:
  "dir \<lparr>pos = (0, 0, 0), dir = (1, 0, 0)\<rparr> \<noteq> (0, 0, 0)
   \<and> (3 / 10 ^ 7 :: real) > 0
   \<and> pos \<lparr>pos = (0, 0, 0), dir = (1, 0, 0)\<rparr> \<noteq> (5 / 10 ^ 7, 0, 0)
   \<and> discriminant \<lparr>pos = (0, 0, 0), dir = (1, 0, 0)\<rparr> (5 / 10 ^ 7, 0, 0) (3 / 10 ^ 7) \<ge> 0
   \<and> nearerRoot \<lparr>pos = (0, 0, 0), dir = (1, 0, 0)\<rparr> (5 / 10 ^ 7, 0, 0) (3 / 10 ^ 7) = 2 / 10 ^ 7
   \<and> closestPointOnSphere \<lparr>pos = (0, 0, 0), dir = (1, 0, 0)\<rparr> (5 / 10 ^ 7, 0, 0) (3 / 10 ^ 7) (0, 0, 0)
       = Inr (False, (0, 0, 0))"
proof -
  have d: "discriminant \<lparr>pos = (0, 0, 0), dir = (1, 0, 0)\<rparr> (5 / 10 ^ 7, 0, 0) (3 / 10 ^ 7)
             = (6 / 10 ^ 7)\<^sup>2"
    by (simp add: discriminant_def sphere_a_def sphere_b_def sphere_c_def power2_eq_square)
  have t: "nearerRoot \<lparr>pos = (0, 0, 0), dir = (1, 0, 0)\<rparr> (5 / 10 ^ 7, 0, 0) (3 / 10 ^ 7)
             = 2 / 10 ^ 7"
    by (simp only: nearerRoot_def d real_sqrt_abs) (simp add: sphere_a_def sphere_b_def)
  have d0: "discriminant \<lparr>pos = (0, 0, 0), dir = (1, 0, 0)\<rparr> (5 / 10 ^ 7, 0, 0) (3 / 10 ^ 7) \<ge> 0"
    by (simp only: d zero_le_power2)
  have c: "closestPointOnSphere \<lparr>pos = (0, 0, 0), dir = (1, 0, 0)\<rparr> (5 / 10 ^ 7, 0, 0) (3 / 10 ^ 7) (0, 0, 0)
       = Inr (False, (0, 0, 0))"
    by (simp add: closestPointOnSphere_def EPSILON_def)
  have "dir \<lparr>pos = (0, 0, 0), dir = (1, 0, 0)\<rparr> \<noteq> (0, 0, 0)"
    and "(3 / 10 ^ 7 :: real) > 0"
    and "pos \<lparr>pos = (0, 0, 0), dir = (1, 0, 0)\<rparr> \<noteq> (5 / 10 ^ 7, 0, 0)"
    by simp_all
  with d0 t c show ?thesis by (intro conjI)
qed

text \<open>
  Claim C7, amended.  For every call with \<open>dir\<close> not the zero vector, \<open>r > 0\<close> and
  \<^verbatim>\<open>vec3.equals(pos, center)\<close> false, in which \<open>dir\<close> has unit length or the center is
  not ahead of the origin of the ray (\<open>dot(center - pos, dir) \<le> 0\<close>), and whose
  discriminant is negative: with \<open>t = max(projection of -centerToP onto dir, 0)\<close>,
  \<open>pointOnRay = pos + t * dir\<close> and \<open>v\<close> the vector \<open>center - pointOnRay\<close> scaled by
  \<open>1 - r / \<bar>center - pointOnRay\<bar>\<close>, the call writes \<open>pointOnRay + v - center\<close> and returns
  false.
\<close>

theorem closestPointOnSphere_miss:
  assumes "dir this \<noteq> (0, 0, 0)" and "r > 0" and "\<not> vec3_equals (pos this) ctr"
    and "vec3_length (dir this) = 1 \<or> vec3_dot (vec3_sub ctr (pos this)) (dir this) \<le> 0"
    and "discriminant this ctr r < 0"
  shows "closestPointOnSphere this ctr r out = Inr (False, missOutput this ctr r)"
proof -
  have a: "vec3_dot (dir this) (dir this) > 0"
    using vec3_squaredLength_pos [OF assms(1)] by (simp add: vec3_squaredLength_dot)
  have "max (projectionOnto (vec3_sub ctr (pos this)) (dir this)) 0
          = max (vec3_dot (vec3_sub ctr (pos this)) (dir this)) 0"
    using assms(4)
  proof
    assume "vec3_length (dir this) = 1"
    then have "vec3_dot (dir this) (dir this) = 1"
      by (simp add: vec3_length_sq vec3_squaredLength_dot)
    then show ?thesis by (simp add: projectionOnto_def)
  next
    assume away: "vec3_dot (vec3_sub ctr (pos this)) (dir this) \<le> 0"
    then have "projectionOnto (vec3_sub ctr (pos this)) (dir this) \<le> 0"
      using a by (simp add: projectionOnto_def divide_le_0_iff)
    with away show ?thesis by simp
  qed
  then have "missOutput this ctr r = missBranchOutput this ctr r"
    by (simp add: missOutput_def missBranchOutput_def)
  with assms(5) show ?thesis
    by (simp add: closestPointOnSphere_cases [OF assms(1-3)])
qed

text \<open>
  The theorem at two rays that pass the unit sphere at the origin at distance 2: the
  ray from \<open>(-4, 2, 0)\<close> with the unit direction \<open>(1, 0, 0)\<close>, and the ray from
  \<open>(0, 2, 0)\<close> with the direction \<open>(2, 0, 0)\<close>, for which the center is not ahead.  The
  point written is \<open>(0, 1, 0)\<close> in both.
\<close>

theorem closestPointOnSphere_miss_witness:
  "\<not> vec3_equals (pos \<lparr>pos = (- 4, 2, 0), dir = (1, 0, 0)\<rparr>) (0, 0, 0)
   \<and> vec3_length (dir \<lparr>pos = (- 4, 2, 0), dir = (1, 0, 0)\<rparr>) = 1
   \<and> discriminant \<lparr>pos = (- 4, 2, 0), dir = (1, 0, 0)\<rparr> (0, 0, 0) 1 = - 12
   \<and> missOutput \<lparr>pos = (- 4, 2, 0), dir = (1, 0, 0)\<rparr> (0, 0, 0) 1 = (0, 1, 0)
   \<and> closestPointOnSphere \<lparr>pos = (- 4, 2, 0), dir = (1, 0, 0)\<rparr> (0, 0, 0) 1 (7, 7, 7)
       = Inr (False, (0, 1, 0))
   \<and> \<not> vec3_equals (pos \<lparr>pos = (0, 2, 0), dir = (2, 0, 0)\<rparr>) (0, 0, 0)
   \<and> vec3_dot (vec3_sub (0, 0, 0) (pos \<lparr>pos = (0, 2, 0), dir = (2, 0, 0)\<rparr>))
         (dir \<lparr>pos = (0, 2, 0), dir = (2, 0, 0)\<rparr>) \<le> 0
   \<and> discriminant \<lparr>pos = (0, 2, 0), dir = (2, 0, 0)\<rparr> (0, 0, 0) 1 = - 48
   \<and> missOutput \<lparr>pos = (0, 2, 0), dir = (2, 0, 0)\<rparr> (0, 0, 0) 1 = (0, 1, 0)
   \<and> closestPointOnSphere \<lparr>pos = (0, 2, 0), dir = (2, 0, 0)\<rparr> (0, 0, 0) 1 (7, 7, 7)
       = Inr (False, (0, 1, 0))"
proof -
  let ?u = "\<lparr>pos = (- 4, 2, 0), dir = (1, 0, 0)\<rparr>"
  let ?w = "\<lparr>pos = (0, 2, 0), dir = (2, 0, 0)\<rparr>"
  have e1: "\<not> vec3_equals (pos ?u) (0, 0, 0)"
    by (simp add: EPSILON_def)
  have n1: "dir ?u \<noteq> (0, 0, 0)" and r: "(1 :: real) > 0"
    by simp_all
  have l1: "vec3_length (dir ?u) = 1"
    by simp
  have d1: "discriminant ?u (0, 0, 0) 1 = - 12"
    by (simp add: discriminant_def sphere_a_def sphere_b_def sphere_c_def)
  have m1: "missOutput ?u (0, 0, 0) 1 = (0, 1, 0)"
    by (simp add: missOutput_def projectionOnto_def rayPoint_def)
  have "discriminant ?u (0, 0, 0) 1 < 0" by (simp add: d1)
  from closestPointOnSphere_miss [OF n1 r e1 disjI1 [OF l1] this, of "(7, 7, 7)"]
  have c1: "closestPointOnSphere ?u (0, 0, 0) 1 (7, 7, 7) = Inr (False, (0, 1, 0))"
    by (simp only: m1)
  have e2: "\<not> vec3_equals (pos ?w) (0, 0, 0)"
    by (simp add: EPSILON_def)
  have n2: "dir ?w \<noteq> (0, 0, 0)"
    by simp
  have l2: "vec3_dot (vec3_sub (0, 0, 0) (pos ?w)) (dir ?w) \<le> 0"
    by simp
  have d2: "discriminant ?w (0, 0, 0) 1 = - 48"
    by (simp add: discriminant_def sphere_a_def sphere_b_def sphere_c_def)
  have m2: "missOutput ?w (0, 0, 0) 1 = (0, 1, 0)"
    by (simp add: missOutput_def projectionOnto_def rayPoint_def)
  have "discriminant ?w (0, 0, 0) 1 < 0" by (simp add: d2)
  from closestPointOnSphere_miss [OF n2 r e2 disjI2 [OF l2] this, of "(7, 7, 7)"]
  have c2: "closestPointOnSphere ?w (0, 0, 0) 1 (7, 7, 7) = Inr (False, (0, 1, 0))"
    by (simp only: m2)
  from e1 l1 d1 m1 c1 e2 l2 d2 m2 c2 show ?thesis by (intro conjI)
qed

text \<open>
  Claim C7 as it was stated fails where \<open>pos\<close> and \<open>center\<close> differ but are equal within
  the tolerance of \<^verbatim>\<open>vec3.equals\<close>: the ray from the origin along the x axis, with
  unit direction, misses the sphere of radius \<open>3 * 10\<^sup>-\<^sup>7\<close> around \<open>(0, 5 * 10\<^sup>-\<^sup>7, 0)\<close>, the
  claim's output is \<open>(0, -3 * 10\<^sup>-\<^sup>7, 0)\<close>, and the call leaves the buffer, here
  \<open>(7, 7, 7)\<close>, as it was.
\<close>

theorem closestPointOnSphere_miss_counterexample:
  "dir \<lparr>pos = (0, 0, 0), dir = (1, 0, 0)\<rparr> \<noteq> (0, 0, 0)
   \<and> (3 / 10 ^ 7 :: real) > 0
   \<and> pos \<lparr>pos = (0, 0, 0), dir = (1, 0, 0)\<rparr> \<noteq> (0, 5 / 10 ^ 7, 0)
   \<and> discriminant \<lparr>pos = (0, 0, 0), dir = (1, 0, 0)\<rparr> (0, 5 / 10 ^ 7, 0) (3 / 10 ^ 7) < 0
   \<and> missOutput \<lparr>pos = (0, 0, 0), dir = (1, 0, 0)\<rparr> (0, 5 / 10 ^ 7, 0) (3 / 10 ^ 7)
       = (0, - 3 / 10 ^ 7, 0)
   \<and> closestPointOnSphere \<lparr>pos = (0, 0, 0), dir = (1, 0, 0)\<rparr> (0, 5 / 10 ^ 7, 0) (3 / 10 ^ 7) (7, 7, 7)
       = Inr (False, (7, 7, 7))
   \<and> (7, 7, 7) \<noteq> (0, - 3 / 10 ^ 7, 0 :: real)"
proof -
  have d: "discriminant \<lparr>pos = (0, 0, 0), dir = (1, 0, 0)\<rparr> (0, 5 / 10 ^ 7, 0) (3 / 10 ^ 7) < 0"
    by (simp add: discriminant_def sphere_a_def sphere_b_def sphere_c_def power2_eq_square)
  have m: "missOutput \<lparr>pos = (0, 0, 0), dir = (1, 0, 0)\<rparr> (0, 5 / 10 ^ 7, 0) (3 / 10 ^ 7)
       = (0, - 3 / 10 ^ 7, 0)"
    by (simp add: missOutput_def projectionOnto_def rayPoint_def vec3_length_axis
        del: vec3_length.simps)
  have c: "closestPointOnSphere \<lparr>pos = (0, 0, 0), dir = (1, 0, 0)\<rparr> (0, 5 / 10 ^ 7, 0) (3 / 10 ^ 7) (7, 7, 7)
       = Inr (False, (7, 7, 7))"
    by (simp add: closestPointOnSphere_def EPSILON_def)
  have "dir \<lparr>pos = (0, 0, 0), dir = (1, 0, 0)\<rparr> \<noteq> (0, 0, 0)"
    and "(3 / 10 ^ 7 :: real) > 0"
    and "pos \<lparr>pos = (0, 0, 0), dir = (1, 0, 0)\<rparr> \<noteq> (0, 5 / 10 ^ 7, 0)"
    and "(7, 7, 7) \<noteq> (0, - 3 / 10 ^ 7, 0 :: real)"
    by simp_all
  with d m c show ?thesis by (intro conjI)
qed

text \<open>
  Claim C10, amended.  For every non-degenerate call (\<open>dir\<close> not the zero vector,
  \<open>r > 0\<close>, \<^verbatim>\<open>vec3.equals(pos, center)\<close> false) the call returns, and the vector it
  writes has length exactly \<open>r\<close>, on each of the three branches.
\<close>

theorem closestPointOnSphere_on_sphere:
  assumes "dir this \<noteq> (0, 0, 0)" and "r > 0" and "\<not> vec3_equals (pos this) ctr"
  shows "\<exists>b p. closestPointOnSphere this ctr r out = Inr (b, p) \<and> vec3_length p = r"
proof -
  have neq: "pos this \<noteq> ctr"
    using assms(3) by (rule vec3_not_equals_distinct)
  note c = closestPointOnSphere_cases [OF assms, of out]
  consider "discriminant this ctr r < 0"
    | "discriminant this ctr r \<ge> 0" "nearerRoot this ctr r < 0"
    | "discriminant this ctr r \<ge> 0" "nearerRoot this ctr r \<ge> 0"
    by linarith
  then show ?thesis
  proof cases
    case 1
    then show ?thesis
      using missBranchOutput_length [OF assms(1,2) 1]
      by (intro exI [of _ False] exI [of _ "missBranchOutput this ctr r"]) (simp add: c)
  next
    case 2
    then show ?thesis
      using behind_length [OF assms(2) neq]
      by (intro exI [of _ False]
          exI [of _ "vec3_scale (vec3_sub (pos this) ctr) (r / vec3_length (vec3_sub (pos this) ctr))"])
        (simp add: c)
  next
    case 3
    then show ?thesis
      using hit_length [OF assms(1,2) 3(1)]
      by (intro exI [of _ True] exI [of _ "vec3_sub (rayPoint this (nearerRoot this ctr r)) ctr"])
        (simp add: c)
  qed
qed

text \<open>
  The theorem at the ray from \<open>(-3, 0, 0)\<close> along the x axis and the unit sphere at the
  origin.
\<close>

theorem closestPointOnSphere_on_sphere_witness:
  "\<not> vec3_equals (pos \<lparr>pos = (- 3, 0, 0), dir = (1, 0, 0)\<rparr>) (0, 0, 0)
   \<and> (\<exists>b p. closestPointOnSphere \<lparr>pos = (- 3, 0, 0), dir = (1, 0, 0)\<rparr> (0, 0, 0) 1 (0, 0, 0)
               = Inr (b, p) \<and> vec3_length p = 1)"
proof -
  have e: "\<not> vec3_equals (pos \<lparr>pos = (- 3, 0, 0), dir = (1, 0, 0)\<rparr>) (0, 0, 0)"
    by (simp add: EPSILON_def)
  show ?thesis
    using closestPointOnSphere_on_sphere
            [of "\<lparr>pos = (- 3, 0, 0), dir = (1, 0, 0)\<rparr>" 1 "(0, 0, 0)" "(0, 0, 0)", OF _ _ e]
    by (simp add: EPSILON_def)
qed

text \<open>
  Claim C10 as it was stated fails at a call with \<open>pos \<noteq> center\<close> that the source treats
  as degenerate, the ray from the origin and the unit sphere around
  \<open>(5 * 10\<^sup>-\<^sup>7, 0, 0)\<close>: the buffer, here the zero vector, is what the caller finds after
  the call, and its length is not \<open>r = 1\<close>.
\<close>

theorem closestPointOnSphere_on_sphere_counterexample:
  "dir \<lparr>pos = (0, 0, 0), dir = (1, 0, 0)\<rparr> \<noteq> (0, 0, 0)
   \<and> (1 :: real) > 0
   \<and> pos \<lparr>pos = (0, 0, 0), dir = (1, 0, 0)\<rparr> \<noteq> (5 / 10 ^ 7, 0, 0)
   \<and> closestPointOnSphere \<lparr>pos = (0, 0, 0), dir = (1, 0, 0)\<rparr> (5 / 10 ^ 7, 0, 0) 1 (0, 0, 0)
       = Inr (False, (0, 0, 0))
   \<and> vec3_length (0, 0, 0) \<noteq> 1"
  by (simp add: closestPointOnSphere_def EPSILON_def)

section \<open>Properties of Aabb and Frustum\<close>

subsection \<open>Aabb.quadrant\<close>

text \<open>The child in components: every bound passes through single precision.\<close>

lemma quadrant_explicit:
  "quadrant this index =
     Aabb (fround (if index mod 2 = 0 then vec3_get (min_pt this) 0
                   else vec3_get (center this) 0),
           fround (if index < 2 then vec3_get (min_pt this) 1 else vec3_get (center this) 1),
           fround (vec3_get (min_pt this) 2))
          (fround (if index mod 2 = 0 then vec3_get (center this) 0
                   else vec3_get (max_pt this) 0),
           fround (if index < 2 then vec3_get (center this) 1 else vec3_get (max_pt this) 1),
           fround (vec3_get (max_pt this) 2))"
proof -
  have split: "[0 ..< length [index mod 2 = 0, index < 2]] = [0, 1]"
    by (simp add: upt_rec)
  show ?thesis
    unfolding quadrant_def Let_def split vec3_clone_def
    by (cases "min_pt this"; cases "max_pt this") simp
qed

text \<open>
  Claim C8.  The claim is that the child has the x-range \<open>[min.x, center.x]\<close> or
  \<open>[center.x, max.x]\<close>, the y-range \<open>[min.y, center.y]\<close> or \<open>[center.y, max.y]\<close>, and the
  parent's z-range.  The source stores the bounds of the child in \<^verbatim>\<open>vec3.clone\<close>
  vectors, rounded to single precision.  For the box from \<open>(0, 0, 0)\<close> to
  \<open>(16777217, 2, 16777217)\<close>, with \<open>center.x = 8388608.5\<close>, the child of index 0 has the
  x-range \<open>[0, 8388608]\<close> and the z-range \<open>[0, 16777216]\<close>.
\<close>

theorem quadrant_single_precision:
  "quadrant (Aabb (0, 0, 0) (16777217, 2, 16777217)) 0 = Aabb (0, 0, 0) (8388608, 1, 16777216)
   \<and> center (Aabb (0, 0, 0) (16777217, 2, 16777217)) = (16777217 / 2, 1, 16777217 / 2)"
  by (simp add: quadrant_explicit Aabb_def fround_zero fround_values)

text \<open>
  Where the bounds and the center of the parent are single-precision numbers, the ranges
  of the child are the ranges of the claim.
\<close>

lemma quadrant_ranges_exact:
  assumes "vec3_float32 (min_pt this) = min_pt this"
    and "vec3_float32 (max_pt this) = max_pt this"
    and "vec3_float32 (center this) = center this"
  shows "(vec3_get (min_pt (quadrant this index)) 0, vec3_get (max_pt (quadrant this index)) 0) =
     (if index mod 2 = 0 then (vec3_get (min_pt this) 0, vec3_get (center this) 0)
      else (vec3_get (center this) 0, vec3_get (max_pt this) 0))
   \<and> (vec3_get (min_pt (quadrant this index)) 1, vec3_get (max_pt (quadrant this index)) 1) =
     (if index < 2 then (vec3_get (min_pt this) 1, vec3_get (center this) 1)
      else (vec3_get (center this) 1, vec3_get (max_pt this) 1))
   \<and> (vec3_get (min_pt (quadrant this index)) 2, vec3_get (max_pt (quadrant this index)) 2) =
     (vec3_get (min_pt this) 2, vec3_get (max_pt this) 2)"
proof -
  obtain x0 y0 z0 where mn: "min_pt this = (x0, y0, z0)" by (cases "min_pt this")
  obtain x1 y1 z1 where mx: "max_pt this = (x1, y1, z1)" by (cases "max_pt this")
  obtain cx cy cz where ce: "center this = (cx, cy, cz)" by (cases "center this")
  have "fround x0 = x0" "fround y0 = y0" "fround z0 = z0"
    "fround x1 = x1" "fround y1 = y1" "fround z1 = z1"
    "fround cx = cx" "fround cy = cy"
    using assms by (simp_all add: mn mx ce)
  then show ?thesis
    by (simp add: quadrant_explicit Aabb_def mn mx ce)
qed

lemma quadrant_indices: "{0 .. 3 :: nat} = {0, 1, 2, 3}"
  by auto

text \<open>
  Claim C9.  The claim is that the rectangles of the four children cover exactly the
  parent's rectangle, meet only on the center lines, and that every child has the
  parent's z range.  With the bounds of the children rounded to single precision, the
  children of the box from \<open>(0, 0, 0)\<close> to \<open>(16777217, 2, 16777217)\<close> reach
  \<open>x = 16777216\<close> only: the point \<open>(16777217, 0)\<close> of the parent's rectangle is in none of
  them.  The children 0 and 1 meet on the line \<open>x = 8388608\<close>, not on the center line
  \<open>x = 8388608.5\<close>, and the z range of a child is \<open>[0, 16777216]\<close>.
\<close>

theorem quadrant_partition_single_precision:
  "(16777217, 0) \<in> rectXY (Aabb (0, 0, 0) (16777217, 2, 16777217))
   \<and> (16777217, 0) \<notin> rectXY (quadrant (Aabb (0, 0, 0) (16777217, 2, 16777217)) 0)
   \<and> (16777217, 0) \<notin> rectXY (quadrant (Aabb (0, 0, 0) (16777217, 2, 16777217)) 1)
   \<and> (16777217, 0) \<notin> rectXY (quadrant (Aabb (0, 0, 0) (16777217, 2, 16777217)) 2)
   \<and> (16777217, 0) \<notin> rectXY (quadrant (Aabb (0, 0, 0) (16777217, 2, 16777217)) 3)
   \<and> (8388608, 0) \<in> rectXY (quadrant (Aabb (0, 0, 0) (16777217, 2, 16777217)) 0)
   \<and> (8388608, 0) \<in> rectXY (quadrant (Aabb (0, 0, 0) (16777217, 2, 16777217)) 1)
   \<and> rangeZ (quadrant (Aabb (0, 0, 0) (16777217, 2, 16777217)) 0) = (0, 16777216)
   \<and> rangeZ (Aabb (0, 0, 0) (16777217, 2, 16777217)) = (0, 16777217)"
  by (simp add: rectXY_def rangeZ_def quadrant_explicit Aabb_def fround_zero fround_values)

text \<open>
  Where the bounds and the center of the parent are single-precision numbers and
  \<open>min \<le> max\<close> on the x and the y axis, the children partition the parent's rectangle as
  the claim says.
\<close>

lemma rectXY_quadrant:
  assumes "fround x0 = x0" and "fround x1 = x1" and "fround ((x0 + x1) / 2) = (x0 + x1) / 2"
    and "fround y0 = y0" and "fround y1 = y1" and "fround ((y0 + y1) / 2) = (y0 + y1) / 2"
  shows "rectXY (quadrant (Aabb (x0, y0, z0) (x1, y1, z1)) index) =
     {(x, y).
        (if index mod 2 = 0 then x0 \<le> x \<and> x \<le> (x0 + x1) / 2 else (x0 + x1) / 2 \<le> x \<and> x \<le> x1) \<and>
        (if index < 2 then y0 \<le> y \<and> y \<le> (y0 + y1) / 2 else (y0 + y1) / 2 \<le> y \<and> y \<le> y1)}"
  using assms by (auto simp add: rectXY_def quadrant_explicit Aabb_def)

lemma interiorXY_quadrant:
  assumes "fround x0 = x0" and "fround x1 = x1" and "fround ((x0 + x1) / 2) = (x0 + x1) / 2"
    and "fround y0 = y0" and "fround y1 = y1" and "fround ((y0 + y1) / 2) = (y0 + y1) / 2"
  shows "interiorXY (quadrant (Aabb (x0, y0, z0) (x1, y1, z1)) index) =
     {(x, y).
        (if index mod 2 = 0 then x0 < x \<and> x < (x0 + x1) / 2 else (x0 + x1) / 2 < x \<and> x < x1) \<and>
        (if index < 2 then y0 < y \<and> y < (y0 + y1) / 2 else (y0 + y1) / 2 < y \<and> y < y1)}"
  using assms by (auto simp add: interiorXY_def quadrant_explicit Aabb_def)

lemma rectXY_Aabb:
  "rectXY (Aabb (x0, y0, z0) (x1, y1, z1)) = {(x, y). x0 \<le> x \<and> x \<le> x1 \<and> y0 \<le> y \<and> y \<le> y1}"
  by (simp add: rectXY_def Aabb_def)

lemma center_Aabb:
  "center (Aabb (x0, y0, z0) (x1, y1, z1)) = ((x0 + x1) / 2, (y0 + y1) / 2, (z0 + z1) / 2)"
  by (simp add: Aabb_def)

lemma quadrant_partition_exact:
  assumes "vec3_get mn 0 \<le> vec3_get mx 0" and "vec3_get mn 1 \<le> vec3_get mx 1"
    and "vec3_float32 mn = mn" and "vec3_float32 mx = mx"
    and "vec3_float32 (center (Aabb mn mx)) = center (Aabb mn mx)"
  shows "(\<Union>i\<in>{0 .. 3}. rectXY (quadrant (Aabb mn mx) i)) = rectXY (Aabb mn mx)
     \<and> (\<forall>i\<in>{0 .. 3}. \<forall>j\<in>{0 .. 3}. i \<noteq> j \<longrightarrow>
          interiorXY (quadrant (Aabb mn mx) i) \<inter> interiorXY (quadrant (Aabb mn mx) j) = {}
          \<and> rectXY (quadrant (Aabb mn mx) i) \<inter> rectXY (quadrant (Aabb mn mx) j)
              \<subseteq> {(x, y). x = vec3_get (center (Aabb mn mx)) 0
                         \<or> y = vec3_get (center (Aabb mn mx)) 1})
     \<and> (\<forall>i\<in>{0 .. 3}. rangeZ (quadrant (Aabb mn mx) i) = rangeZ (Aabb mn mx))"
proof -
  obtain x0 y0 z0 where mn: "mn = (x0, y0, z0)" by (cases mn)
  obtain x1 y1 z1 where mx: "mx = (x1, y1, z1)" by (cases mx)
  have ord: "x0 \<le> x1" "y0 \<le> y1" using assms(1,2) by (simp_all add: mn mx)
  have fx: "fround x0 = x0" "fround x1 = x1" "fround ((x0 + x1) / 2) = (x0 + x1) / 2"
    and fy: "fround y0 = y0" "fround y1 = y1" "fround ((y0 + y1) / 2) = (y0 + y1) / 2"
    and fz: "fround z0 = z0" "fround z1 = z1"
    using assms(3-5) by (simp_all add: mn mx center_Aabb)
  note R = rectXY_quadrant [OF fx fy, of z0 z1]
  note I = interiorXY_quadrant [OF fx fy, of z0 z1]
  have mid: "x0 \<le> (x0 + x1) / 2" "(x0 + x1) / 2 \<le> x1" "y0 \<le> (y0 + y1) / 2" "(y0 + y1) / 2 \<le> y1"
    using ord by simp_all
  have differ: "(i mod 2 = 0) \<noteq> (j mod 2 = 0) \<or> (i < 2) \<noteq> (j < 2)"
    if "i \<in> {0 .. 3}" "j \<in> {0 .. 3}" "i \<noteq> j" for i j :: nat
    using that unfolding quadrant_indices by auto
  show ?thesis
    unfolding mn mx center_Aabb
  proof (intro conjI ballI impI)
    show "(\<Union>i\<in>{0 .. 3}. rectXY (quadrant (Aabb (x0, y0, z0) (x1, y1, z1)) i))
            = rectXY (Aabb (x0, y0, z0) (x1, y1, z1))"
    proof (rule set_eqI)
      fix p :: "real \<times> real"
      obtain x y where p: "p = (x, y)" by (cases p)
      show "p \<in> (\<Union>i\<in>{0 .. 3}. rectXY (quadrant (Aabb (x0, y0, z0) (x1, y1, z1)) i))
              \<longleftrightarrow> p \<in> rectXY (Aabb (x0, y0, z0) (x1, y1, z1))"
        unfolding quadrant_indices p using mid
        by (simp add: R rectXY_Aabb) linarith
    qed
  next
    fix i j :: nat
    assume "i \<in> {0 .. 3}" and "j \<in> {0 .. 3}" and "i \<noteq> j"
    then have "(i mod 2 = 0) \<noteq> (j mod 2 = 0) \<or> (i < 2) \<noteq> (j < 2)"
      by (rule differ)
    then show "interiorXY (quadrant (Aabb (x0, y0, z0) (x1, y1, z1)) i)
                 \<inter> interiorXY (quadrant (Aabb (x0, y0, z0) (x1, y1, z1)) j) = {}"
      by (auto simp add: I split: if_splits)
  next
    fix i j :: nat
    assume "i \<in> {0 .. 3}" and "j \<in> {0 .. 3}" and "i \<noteq> j"
    then have "(i mod 2 = 0) \<noteq> (j mod 2 = 0) \<or> (i < 2) \<noteq> (j < 2)"
      by (rule differ)
    then show "rectXY (quadrant (Aabb (x0, y0, z0) (x1, y1, z1)) i)
                 \<inter> rectXY (quadrant (Aabb (x0, y0, z0) (x1, y1, z1)) j)
               \<subseteq> {(x, y). x = vec3_get ((x0 + x1) / 2, (y0 + y1) / 2, (z0 + z1) / 2) 0
                          \<or> y = vec3_get ((x0 + x1) / 2, (y0 + y1) / 2, (z0 + z1) / 2) 1}"
      by (auto simp add: R split: if_splits)
  next
    fix i :: nat
    show "rangeZ (quadrant (Aabb (x0, y0, z0) (x1, y1, z1)) i)
            = rangeZ (Aabb (x0, y0, z0) (x1, y1, z1))"
      using fz by (simp add: rangeZ_def quadrant_explicit Aabb_def)
  qed
qed

subsection \<open>Aabb.intersects: the plane stage\<close>

lemma fold_count:
  "fold (\<lambda>pt n. n + (if P pt then 1 else 0)) pts (k :: nat) = k + length (filter P pts)"
  by (induction pts arbitrary: k) simp_all

lemma pointsInsideCount_filter:
  "pointsInsideCount plane pts = length (filter (insideHalfSpace plane) pts)"
proof -
  have "pointsInsideCount plane pts
          = fold (\<lambda>pt n. n + (if insideHalfSpace plane pt then 1 else 0)) pts 0"
    by (simp add: pointsInsideCount_def insideHalfSpace_def)
  then show ?thesis by (simp add: fold_count)
qed

lemma pointsInsideCount_zero:
  "pointsInsideCount plane pts = 0 \<longleftrightarrow> (\<forall>c\<in>set pts. \<not> insideHalfSpace plane c)"
  by (simp add: pointsInsideCount_filter filter_empty_conv)

lemma pointsInsideCount_all:
  "pointsInsideCount plane pts = length pts \<longleftrightarrow> (\<forall>c\<in>set pts. insideHalfSpace plane c)"
proof
  assume "pointsInsideCount plane pts = length pts"
  then have eq: "length (filter (insideHalfSpace plane) pts) = length pts"
    by (simp add: pointsInsideCount_filter)
  show "\<forall>c\<in>set pts. insideHalfSpace plane c"
  proof (rule ballI, rule ccontr)
    fix c
    assume "c \<in> set pts" and "\<not> insideHalfSpace plane c"
    then have "length (filter (insideHalfSpace plane) pts) < length pts"
      by (rule length_filter_less)
    with eq show False by simp
  qed
next
  assume "\<forall>c\<in>set pts. insideHalfSpace plane c"
  then show "pointsInsideCount plane pts = length pts"
    by (simp add: pointsInsideCount_filter)
qed

lemma planesLoop_result:
  "planesLoop pts ps fullyInside =
     (if \<exists>plane\<in>set ps. \<forall>c\<in>set pts. \<not> insideHalfSpace plane c then None
      else Some (fullyInside \<and> (\<forall>plane\<in>set ps. \<forall>c\<in>set pts. insideHalfSpace plane c)))"
proof (induction ps arbitrary: fullyInside)
  case Nil
  show ?case by simp
next
  case (Cons plane rest)
  show ?case
    by (simp add: Let_def Cons.IH pointsInsideCount_zero pointsInsideCount_all)
qed


lemma getCorners_nonempty: "getCorners this \<noteq> []"
  by (simp add: getCorners_def Let_def)

text \<open>
  Claim C2.  For every Aabb and Frustum, \<^verbatim>\<open>intersects(frustum)\<close> returns 0 whenever some
  plane of the frustum has none of the box's 8 corners with \<open>dot(normal, corner) + d \<ge> 0\<close>,
  and returns 2 whenever every plane has all 8 corners with that inequality.  The number
  of planes does not matter.
\<close>

theorem intersects_plane_stage:
  "((\<exists>plane\<in>set (planes f). \<forall>c\<in>set (getCorners this).
        \<not> vec3_dot (vec4_xyz plane) c + vec4_w plane \<ge> 0)
      \<longrightarrow> intersects this f = 0)
   \<and> ((\<forall>plane\<in>set (planes f). \<forall>c\<in>set (getCorners this).
        vec3_dot (vec4_xyz plane) c + vec4_w plane \<ge> 0)
      \<longrightarrow> intersects this f = 2)"
proof (intro conjI impI)
  assume "\<exists>plane\<in>set (planes f). \<forall>c\<in>set (getCorners this).
            \<not> vec3_dot (vec4_xyz plane) c + vec4_w plane \<ge> 0"
  then have "\<exists>plane\<in>set (planes f). \<forall>c\<in>set (getCorners this). \<not> insideHalfSpace plane c"
    by (simp add: insideHalfSpace_def)
  then show "intersects this f = 0"
    by (simp add: intersects_def planesLoop_result)
next
  assume "\<forall>plane\<in>set (planes f). \<forall>c\<in>set (getCorners this).
            vec3_dot (vec4_xyz plane) c + vec4_w plane \<ge> 0"
  then have all: "\<forall>plane\<in>set (planes f). \<forall>c\<in>set (getCorners this). insideHalfSpace plane c"
    by (simp add: insideHalfSpace_def)
  obtain c where c: "c \<in> set (getCorners this)"
    using getCorners_nonempty [of this] by (cases "getCorners this") auto
  from all c have "\<not> (\<exists>plane\<in>set (planes f). \<forall>c\<in>set (getCorners this). \<not> insideHalfSpace plane c)"
    by blast
  with all show "intersects this f = 2"
    by (simp add: intersects_def planesLoop_result)
qed


subsection \<open>Aabb.intersects: the axis stage\<close>

lemma fold_projMax_negative:
  "snd (fold (\<lambda>p (lo, hi). (min lo (g p), max hi (g p))) pts (a, b)) < (0 :: real)
     \<longleftrightarrow> b < 0 \<and> (\<forall>p\<in>set pts. g p < 0)"
  by (induction pts arbitrary: a b) auto

lemma fold_projMin_greater:
  "fst (fold (\<lambda>p (lo, hi). (min lo (g p), max hi (g p))) pts (a, b)) > (w :: real)
     \<longleftrightarrow> a > w \<and> (\<forall>p\<in>set pts. g p > w)"
  by (induction pts arbitrary: a b) auto

lemma MAX_VALUE_positive: "MAX_VALUE > 0"
  by (simp add: MAX_VALUE_def)

lemma projMinMax_separated:
  assumes "pts \<noteq> []"
    and "\<forall>p\<in>set pts. vec3_get (vec4_xyz p) axis - mn \<le> MAX_VALUE"
  shows "(case projMinMax pts axis mn of (projMin, projMax) \<Rightarrow> projMax < 0 \<or> projMin > w)
     \<longleftrightarrow> (\<forall>p\<in>set pts. vec3_get (vec4_xyz p) axis - mn < 0)
         \<or> (\<forall>p\<in>set pts. vec3_get (vec4_xyz p) axis - mn > w)"
proof -
  let ?g = "\<lambda>p. vec3_get (vec4_xyz p) axis - mn"
  let ?r = "fold (\<lambda>p (lo, hi). (min lo (?g p), max hi (?g p))) pts (MAX_VALUE, - MAX_VALUE)"
  have r: "projMinMax pts axis mn = ?r"
    by (simp add: projMinMax_def Let_def)
  obtain p where p: "p \<in> set pts" using assms(1) by (cases pts) auto
  have "(\<forall>p\<in>set pts. ?g p > w) \<Longrightarrow> MAX_VALUE > w"
    using assms(2) p by fastforce
  then have "(snd ?r < 0 \<or> fst ?r > w)
      \<longleftrightarrow> (\<forall>p\<in>set pts. ?g p < 0) \<or> (\<forall>p\<in>set pts. ?g p > w)"
    unfolding fold_projMax_negative fold_projMin_greater
    using MAX_VALUE_positive by auto
  then show ?thesis
    unfolding r by (simp add: case_prod_beta)
qed

lemma intervals_disjoint:
  fixes lo hi w :: real
  assumes "lo \<le> hi" and "0 \<le> w"
  shows "{lo .. hi} \<inter> {0 .. w} = {} \<longleftrightarrow> hi < 0 \<or> lo > w"
proof
  assume empty: "{lo .. hi} \<inter> {0 .. w} = {}"
  show "hi < 0 \<or> lo > w"
  proof (rule ccontr)
    assume "\<not> (hi < 0 \<or> lo > w)"
    then have "max lo 0 \<in> {lo .. hi} \<inter> {0 .. w}"
      using assms by auto
    with empty show False by blast
  qed
next
  assume "hi < 0 \<or> lo > w"
  then show "{lo .. hi} \<inter> {0 .. w} = {}" by auto
qed

lemma projectedInterval_separated:
  assumes "points f \<noteq> []"
    and "vec3_get (min_pt this) axis \<le> vec3_get (max_pt this) axis"
  shows "projectedInterval this f axis \<inter> boxExtent this axis = {}
     \<longleftrightarrow> (\<forall>x\<in>projectedCoords this f axis. x < 0)
         \<or> (\<forall>x\<in>projectedCoords this f axis.
               x > vec3_get (max_pt this) axis - vec3_get (min_pt this) axis)"
proof -
  let ?S = "projectedCoords this f axis"
  have fin: "finite ?S" by (simp add: projectedCoords_def)
  have ne: "?S \<noteq> {}" using assms(1) by (simp add: projectedCoords_def)
  have le: "Min ?S \<le> Max ?S" using fin ne by (simp add: Min_le_iff)
  have w: "0 \<le> vec3_get (max_pt this) axis - vec3_get (min_pt this) axis"
    using assms(2) by simp
  show ?thesis
    unfolding projectedInterval_def boxExtent_def intervals_disjoint [OF le w]
    using fin ne by (simp add: Max_less_iff Min_gr_iff)
qed

lemma axesLoop_result:
  "axesLoop this f axes =
     (if \<exists>axis\<in>set axes.
           (case projMinMax (points f) axis (vec3_get (min_pt this) axis) of
              (projMin, projMax) \<Rightarrow>
                projMax < 0 \<or> projMin > vec3_get (max_pt this) axis - vec3_get (min_pt this) axis)
      then 0 else 1)"
  by (induction axes) (auto simp add: case_prod_beta)

lemma axis_separated_iff:
  assumes "points f \<noteq> []"
    and "vec3_get (min_pt this) axis \<le> vec3_get (max_pt this) axis"
    and "\<forall>x\<in>projectedCoords this f axis. \<bar>x\<bar> \<le> MAX_VALUE"
  shows "(case projMinMax (points f) axis (vec3_get (min_pt this) axis) of
            (projMin, projMax) \<Rightarrow>
              projMax < 0 \<or> projMin > vec3_get (max_pt this) axis - vec3_get (min_pt this) axis)
     \<longleftrightarrow> projectedInterval this f axis \<inter> boxExtent this axis = {}"
proof -
  have bound: "\<forall>p\<in>set (points f).
      vec3_get (vec4_xyz p) axis - vec3_get (min_pt this) axis \<le> MAX_VALUE"
    using assms(3) by (fastforce simp add: projectedCoords_def)
  show ?thesis
    unfolding projMinMax_separated [OF assms(1) bound]
      projectedInterval_separated [OF assms(1,2)]
    by (simp add: projectedCoords_def)
qed

text \<open>
  Claim C3.  Let the box have \<open>min \<le> max\<close> on every axis, let the frustum have its 8
  corners, and let the projected coordinates be finite numbers (at most
  \<^verbatim>\<open>Number.MAX_VALUE\<close> in absolute value).  When the plane stage decides neither 0 (no
  plane has all corners outside) nor 2 (not every plane has all corners inside), the call
  returns 0 if on some axis the interval \<open>[projMin, projMax]\<close> of the frustum corner
  coordinates minus the box's \<open>min\<close> does not meet \<open>[0, max - min]\<close>, and 1 otherwise.
\<close>

theorem intersects_axis_stage:
  assumes "\<not> (\<exists>plane\<in>set (planes f). \<forall>c\<in>set (getCorners this). \<not> insideHalfSpace plane c)"
    and "\<not> (\<forall>plane\<in>set (planes f). \<forall>c\<in>set (getCorners this). insideHalfSpace plane c)"
    and "length (points f) = 8"
    and "\<forall>axis\<in>{0, 1, 2}. vec3_get (min_pt this) axis \<le> vec3_get (max_pt this) axis"
    and "\<forall>axis\<in>{0, 1, 2}. \<forall>x\<in>projectedCoords this f axis. \<bar>x\<bar> \<le> MAX_VALUE"
  shows "intersects this f =
     (if \<exists>axis\<in>{0, 1, 2}. projectedInterval this f axis \<inter> boxExtent this axis = {}
      then 0 else 1)"
proof -
  have ne: "points f \<noteq> []" using assms(3) by auto
  have stage: "planesLoop (getCorners this) (planes f) True = Some False"
    using assms(1,2) by (simp add: planesLoop_result)
  have sep: "(case projMinMax (points f) axis (vec3_get (min_pt this) axis) of
            (projMin, projMax) \<Rightarrow>
              projMax < 0 \<or> projMin > vec3_get (max_pt this) axis - vec3_get (min_pt this) axis)
     \<longleftrightarrow> projectedInterval this f axis \<inter> boxExtent this axis = {}"
    if "axis \<in> {0, 1, 2}" for axis
    using that assms(4,5) by (intro axis_separated_iff [OF ne]) auto
  have "intersects this f = axesLoop this f [0, 1, 2]"
    by (simp add: intersects_def stage)
  also have "\<dots> = (if \<exists>axis\<in>{0, 1, 2}. projectedInterval this f axis \<inter> boxExtent this axis = {}
      then 0 else 1)"
    unfolding axesLoop_result using sep by simp
  finally show ?thesis .
qed


subsection \<open>Frustum.fromInvProjectionMatrix\<close>

lemma frustumCorner_alt:
  "frustumCorner invProj worldSize zoom zInMeters v =
     (let s = vec4_transformMat4 v invProj;
          k = 1 / vec4_w s / worldSize * 2 powr zoom
      in vec4_mul s (k, k, if zInMeters then 1 / vec4_w s else k, k))"
  by (cases "vec4_transformMat4 v invProj") (simp add: frustumCorner_def Let_def)

lemma frustumCorner_fun:
  "(\<lambda>v. vec4_mul (vec4_transformMat4 v invProj)
          (1 / vec4_w (vec4_transformMat4 v invProj) / worldSize * 2 powr zoom,
           1 / vec4_w (vec4_transformMat4 v invProj) / worldSize * 2 powr zoom,
           if zInMeters then 1 / vec4_w (vec4_transformMat4 v invProj)
           else 1 / vec4_w (vec4_transformMat4 v invProj) / worldSize * 2 powr zoom,
           1 / vec4_w (vec4_transformMat4 v invProj) / worldSize * 2 powr zoom))
     = frustumCorner invProj worldSize zoom zInMeters"
  by (rule ext) (simp only: frustumCorner_alt Let_def)

lemma fromInvProjectionMatrix_explicit:
  "fromInvProjectionMatrix invProj worldSize zoom zInMeters =
     (let cs = map (frustumCorner invProj worldSize zoom zInMeters) clipSpaceCorners in
      Frustum cs
        [planeThrough (cs ! 0) (cs ! 1) (cs ! 2),
         planeThrough (cs ! 6) (cs ! 5) (cs ! 4),
         planeThrough (cs ! 0) (cs ! 3) (cs ! 7),
         planeThrough (cs ! 2) (cs ! 1) (cs ! 5),
         planeThrough (cs ! 3) (cs ! 2) (cs ! 6),
         planeThrough (cs ! 0) (cs ! 4) (cs ! 5)])"
  unfolding fromInvProjectionMatrix_def Let_def frustumCorner_fun
    frustumPlanePointIndices_def planeThrough_def
  by (simp only: list.map prod.case)

lemma clipSpaceCorners_cube:
  "set clipSpaceCorners = {(x, y, z, w). \<bar>x\<bar> = 1 \<and> \<bar>y\<bar> = 1 \<and> \<bar>z\<bar> = 1 \<and> w = 1}"
proof (rule set_eqI)
  fix v :: vec4
  obtain x y z w where v: "v = (x, y, z, w)" by (cases v)
  have abs1: "\<bar>t\<bar> = 1 \<longleftrightarrow> t = 1 \<or> t = - 1" for t :: real by auto
  show "v \<in> set clipSpaceCorners
          \<longleftrightarrow> v \<in> {(x, y, z, w). \<bar>x\<bar> = 1 \<and> \<bar>y\<bar> = 1 \<and> \<bar>z\<bar> = 1 \<and> w = 1}"
    unfolding v clipSpaceCorners_def abs1 by auto
qed

text \<open>
  Claim C4.  For every \<open>invProj\<close>, \<open>worldSize\<close>, \<open>zoom\<close> and \<open>zInMeters\<close>, the frustum has
  the 8 corners obtained from the clip-space cube corners \<open>(\<plusminus>1, \<plusminus>1, \<plusminus>1, 1)\<close>, each
  transformed by \<open>invProj\<close> with \<open>x\<close> and \<open>y\<close> times \<open>k = (1 / w) / worldSize * 2\<^sup>z\<^sup>o\<^sup>o\<^sup>m\<close> and
  \<open>z\<close> times \<open>1 / w\<close> when \<open>zInMeters\<close> is set and times \<open>k\<close> otherwise; and the 6 planes
  near, far, left, right, bottom, top through the corners \<open>{0,1,2}\<close>, \<open>{6,5,4}\<close>,
  \<open>{0,3,7}\<close>, \<open>{2,1,5}\<close>, \<open>{3,2,6}\<close>, \<open>{0,4,5}\<close>, each with
  \<open>n = normalize(cross(c\<^sub>0 - c\<^sub>1, c\<^sub>2 - c\<^sub>1))\<close> and \<open>d = - dot(n, c\<^sub>1)\<close>.
\<close>

theorem fromInvProjectionMatrix_result:
  "points (fromInvProjectionMatrix invProj worldSize zoom zInMeters)
     = map (frustumCorner invProj worldSize zoom zInMeters) clipSpaceCorners
   \<and> length clipSpaceCorners = 8
   \<and> distinct clipSpaceCorners
   \<and> set clipSpaceCorners = {(x, y, z, w). \<bar>x\<bar> = 1 \<and> \<bar>y\<bar> = 1 \<and> \<bar>z\<bar> = 1 \<and> w = 1}
   \<and> vec4_xyz (frustumCorner invProj worldSize zoom zInMeters v) =
       (let s = vec4_transformMat4 v invProj;
            w = vec4_w s;
            k = (1 / w) / worldSize * 2 powr zoom
        in (vec3_get (vec4_xyz s) 0 * k,
            vec3_get (vec4_xyz s) 1 * k,
            vec3_get (vec4_xyz s) 2 * (if zInMeters then 1 / w else k)))
   \<and> planes (fromInvProjectionMatrix invProj worldSize zoom zInMeters)
     = (let c = (\<lambda>i. points (fromInvProjectionMatrix invProj worldSize zoom zInMeters) ! i) in
        [planeThrough (c 0) (c 1) (c 2),
         planeThrough (c 6) (c 5) (c 4),
         planeThrough (c 0) (c 3) (c 7),
         planeThrough (c 2) (c 1) (c 5),
         planeThrough (c 3) (c 2) (c 6),
         planeThrough (c 0) (c 4) (c 5)])"
proof -
  have corner: "vec4_xyz (frustumCorner invProj worldSize zoom zInMeters v) =
       (let s = vec4_transformMat4 v invProj;
            w = vec4_w s;
            k = (1 / w) / worldSize * 2 powr zoom
        in (vec3_get (vec4_xyz s) 0 * k,
            vec3_get (vec4_xyz s) 1 * k,
            vec3_get (vec4_xyz s) 2 * (if zInMeters then 1 / w else k)))"
    by (cases "vec4_transformMat4 v invProj") (simp add: frustumCorner_def Let_def)
  have len: "length clipSpaceCorners = 8" and dist: "distinct clipSpaceCorners"
    by (simp_all add: clipSpaceCorners_def)
  have pts: "points (fromInvProjectionMatrix invProj worldSize zoom zInMeters)
     = map (frustumCorner invProj worldSize zoom zInMeters) clipSpaceCorners"
    by (simp add: fromInvProjectionMatrix_explicit Let_def Frustum_def)
  have pls: "planes (fromInvProjectionMatrix invProj worldSize zoom zInMeters)
     = (let c = (\<lambda>i. points (fromInvProjectionMatrix invProj worldSize zoom zInMeters) ! i) in
        [planeThrough (c 0) (c 1) (c 2),
         planeThrough (c 6) (c 5) (c 4),
         planeThrough (c 0) (c 3) (c 7),
         planeThrough (c 2) (c 1) (c 5),
         planeThrough (c 3) (c 2) (c 6),
         planeThrough (c 0) (c 4) (c 5)])"
    unfolding pts by (simp add: fromInvProjectionMatrix_explicit Let_def Frustum_def)
  from pts len dist clipSpaceCorners_cube corner pls show ?thesis
    by (intro conjI)
qed

lemma sqrt_16: "sqrt 16 = 4"
  using real_sqrt_abs [of 4] by simp

lemma identity_frustum:
  "fromInvProjectionMatrix identityMat4 1 0 False =
     Frustum clipSpaceCorners
       [(0, 0, 1, 1), (0, 0, - 1, 1), (1, 0, 0, 1), (- 1, 0, 0, 1), (0, 1, 0, 1), (0, - 1, 0, 1)]"
proof -
  have cs: "map (frustumCorner identityMat4 1 0 False) clipSpaceCorners = clipSpaceCorners"
    by (simp add: clipSpaceCorners_def frustumCorner_def identityMat4_def)
  show ?thesis
    unfolding fromInvProjectionMatrix_explicit cs Let_def
    by (simp add: clipSpaceCorners_def planeThrough_def sqrt_16)
qed


subsection \<open>The statements about \<^verbatim>\<open>intersects\<close> at concrete boxes\<close>

lemma MAX_VALUE_ge_8: "MAX_VALUE \<ge> 8"
proof -
  have "(2 :: real) ^ 3 \<le> 2 ^ 971" by (rule power_increasing) simp_all
  moreover have "(1 :: real) \<le> 2 ^ 53 - 1" by simp
  ultimately have "1 * (2 :: real) ^ 3 \<le> (2 ^ 53 - 1) * 2 ^ 971"
    by (intro mult_mono) simp_all
  then show ?thesis by (simp add: MAX_VALUE_def)
qed

text \<open>
  The plane stage at the frustum of the identity, the cube \<open>[-1, 1]\<^sup>3\<close>: the unit box far
  outside, at \<open>(1000, 1000, 1000)\<close>, has no corner inside the right plane and the result
  is 0; the unit box \<open>[0, 1]\<^sup>3\<close> has every corner inside every plane and the result is 2.
\<close>

theorem intersects_plane_stage_witness:
  "intersects (Aabb (1000, 1000, 1000) (1001, 1001, 1001))
     (fromInvProjectionMatrix identityMat4 1 0 False) = 0
   \<and> intersects (Aabb (0, 0, 0) (1, 1, 1)) (fromInvProjectionMatrix identityMat4 1 0 False) = 2"
proof -
  let ?f = "fromInvProjectionMatrix identityMat4 1 0 False"
  have outside: "\<exists>plane\<in>set (planes ?f).
      \<forall>c\<in>set (getCorners (Aabb (1000, 1000, 1000) (1001, 1001, 1001))).
        \<not> vec3_dot (vec4_xyz plane) c + vec4_w plane \<ge> 0"
    unfolding identity_frustum by (simp add: Frustum_def getCorners_def Aabb_def)
  have inside: "\<forall>plane\<in>set (planes ?f). \<forall>c\<in>set (getCorners (Aabb (0, 0, 0) (1, 1, 1))).
        vec3_dot (vec4_xyz plane) c + vec4_w plane \<ge> 0"
    unfolding identity_frustum by (simp add: Frustum_def getCorners_def Aabb_def)
  from intersects_plane_stage [THEN conjunct1, THEN mp, OF outside]
    intersects_plane_stage [THEN conjunct2, THEN mp, OF inside]
  show ?thesis by (intro conjI)
qed

text \<open>
  The axis stage.  The box \<open>[0, 2]\<^sup>3\<close> straddles planes of the cube \<open>[-1, 1]\<^sup>3\<close> and
  overlaps it on every axis: the result is 1.  For a frustum with the single plane
  \<open>x \<ge> 0\<close> and the corners of \<open>[4, 6] \<times> [-1, 1]\<^sup>2\<close>, the box \<open>[-1, 1]\<^sup>3\<close> straddles the plane
  and is separated from the corners on the x axis: the result is 0.
\<close>

theorem intersects_axis_stage_witness:
  "intersects (Aabb (0, 0, 0) (2, 2, 2)) (fromInvProjectionMatrix identityMat4 1 0 False) = 1
   \<and> intersects (Aabb (- 1, - 1, - 1) (1, 1, 1))
       (Frustum
          [(4, 1, - 1, 1), (6, 1, - 1, 1), (6, - 1, - 1, 1), (4, - 1, - 1, 1),
           (4, 1, 1, 1), (6, 1, 1, 1), (6, - 1, 1, 1), (4, - 1, 1, 1)]
          [(1, 0, 0, 0)]) = 0"
proof -
  let ?f = "fromInvProjectionMatrix identityMat4 1 0 False"
  let ?a = "Aabb (0, 0, 0) (2, 2, 2)"
  let ?g = "Frustum
          [(4, 1, - 1, 1), (6, 1, - 1, 1), (6, - 1, - 1, 1), (4, - 1, - 1, 1),
           (4, 1, 1, 1), (6, 1, 1, 1), (6, - 1, 1, 1), (4, - 1, 1, 1)]
          [(1, 0, 0, 0)]"
  let ?b = "Aabb (- 1, - 1, - 1) (1, 1, 1)"
  have M: "(1 :: real) \<le> MAX_VALUE" "(5 :: real) \<le> MAX_VALUE" "(7 :: real) \<le> MAX_VALUE"
    "(2 :: real) \<le> MAX_VALUE" "(0 :: real) \<le> MAX_VALUE"
    using MAX_VALUE_ge_8 by simp_all
  have a1: "\<not> (\<exists>plane\<in>set (planes ?f). \<forall>c\<in>set (getCorners ?a). \<not> insideHalfSpace plane c)"
    unfolding identity_frustum
    by (simp add: Frustum_def getCorners_def Aabb_def insideHalfSpace_def)
  have a2: "\<not> (\<forall>plane\<in>set (planes ?f). \<forall>c\<in>set (getCorners ?a). insideHalfSpace plane c)"
    unfolding identity_frustum
    by (simp add: Frustum_def getCorners_def Aabb_def insideHalfSpace_def)
  have a3: "length (points ?f) = 8"
    unfolding identity_frustum by (simp add: Frustum_def clipSpaceCorners_def)
  have a4: "\<forall>axis\<in>{0, 1, 2}. vec3_get (min_pt ?a) axis \<le> vec3_get (max_pt ?a) axis"
    by (simp add: Aabb_def)
  have a5: "\<forall>axis\<in>{0, 1, 2}. \<forall>x\<in>projectedCoords ?a ?f axis. \<bar>x\<bar> \<le> MAX_VALUE"
    unfolding identity_frustum
    by (simp add: projectedCoords_def Frustum_def clipSpaceCorners_def Aabb_def M)
  have ra: "\<not> (\<exists>axis\<in>{0, 1, 2}. projectedInterval ?a ?f axis \<inter> boxExtent ?a axis = {})"
    unfolding identity_frustum
    by (simp add: projectedInterval_def projectedCoords_def boxExtent_def Frustum_def
        clipSpaceCorners_def Aabb_def)
  have b1: "\<not> (\<exists>plane\<in>set (planes ?g). \<forall>c\<in>set (getCorners ?b). \<not> insideHalfSpace plane c)"
    by (simp add: Frustum_def getCorners_def Aabb_def insideHalfSpace_def)
  have b2: "\<not> (\<forall>plane\<in>set (planes ?g). \<forall>c\<in>set (getCorners ?b). insideHalfSpace plane c)"
    by (simp add: Frustum_def getCorners_def Aabb_def insideHalfSpace_def)
  have b3: "length (points ?g) = 8"
    by (simp add: Frustum_def)
  have b4: "\<forall>axis\<in>{0, 1, 2}. vec3_get (min_pt ?b) axis \<le> vec3_get (max_pt ?b) axis"
    by (simp add: Aabb_def)
  have b5: "\<forall>axis\<in>{0, 1, 2}. \<forall>x\<in>projectedCoords ?b ?g axis. \<bar>x\<bar> \<le> MAX_VALUE"
    by (simp add: projectedCoords_def Frustum_def Aabb_def M)
  have rb: "\<exists>axis\<in>{0, 1, 2}. projectedInterval ?b ?g axis \<inter> boxExtent ?b axis = {}"
    by (simp add: projectedInterval_def projectedCoords_def boxExtent_def Frustum_def Aabb_def)
  from intersects_axis_stage [OF a1 a2 a3 a4 a5] ra
  have "intersects ?a ?f = 1" by (simp only: if_False)
  moreover from intersects_axis_stage [OF b1 b2 b3 b4 b5] rb
  have "intersects ?b ?g = 0" by (simp only: if_True)
  ultimately show ?thesis by (intro conjI)
qed

end
